theory Spec2Isabelle
  imports Main
begin

section \<open>Customer OTP authentication: data model\<close>

text \<open>
  The controller \<^verbatim>\<open>src/controllers/customer/auth.controller.js\<close> works on four
  tables (\<^verbatim>\<open>phoneWhitelist\<close>, \<^verbatim>\<open>customerOtps\<close>, \<^verbatim>\<open>customers\<close>,
  \<^verbatim>\<open>customerSessions\<close>) and on an out-of-band delivery channel. Tables are lists of rows,
  in insertion order; a \<^verbatim>\<open>select ... limit(1)\<close> reads the first matching row. JavaScript
  strings are \<open>string\<close>, stored dates are milliseconds since the epoch (\<open>int\<close>),
  \<^verbatim>\<open>null\<close> and \<^verbatim>\<open>undefined\<close> are \<open>None\<close>.
\<close>

text \<open>
  A JavaScript number, as far as the controller computes dates with it: an integer, or
  \<open>NaN\<close>, which also stands for the infinities (they make the same invalid
  \<^verbatim>\<open>Date\<close>). Fractions are not represented.
\<close>

datatype js_number = Num int | NaN

type_synonym customer_id = nat

record otp_row =
  otp_phone :: string
  otp_otpHash :: string
  otp_expiresAt :: "int option"
  otp_used :: bool

record customer_row =
  cust_id :: customer_id
  cust_name :: string
  cust_phone :: string
  cust_email :: "string option"
  cust_createdAt :: int

record session_row =
  sess_customerId :: customer_id
  sess_tokenHash :: string
  sess_expiresAt :: int

text \<open>
  The whole state the three handlers can touch: the four tables and the list of
  \<open>(phone, otp)\<close> pairs handed to \<^verbatim>\<open>customerOtp\<close> for delivery, newest last.
\<close>

record state =
  phoneWhitelist :: "string list"
  customerOtps :: "otp_row list"
  customers :: "customer_row list"
  customerSessions :: "session_row list"
  outbox :: "(string \<times> string) list"

text \<open>
  The parts of \<^verbatim>\<open>req\<close> the handlers read: the \<^verbatim>\<open>Authorization\<close> header, and the
  body's \<^verbatim>\<open>phone\<close> and \<^verbatim>\<open>otp\<close> as \<^verbatim>\<open>String\<close> renders them, \<open>None\<close> when missing
  or falsy.
\<close>

record request =
  authorization :: "string option"
  body_phone :: "string option"
  body_otp :: "string option"

text \<open>
  \<^verbatim>\<open>process.env\<close>. A variable that is not set is \<open>None\<close>. \<open>CUSTOMER_OTP_TTL_MS\<close>
  holds what \<^verbatim>\<open>Number\<close> makes of the variable when it is set and not empty: \<open>NaN\<close> for a
  string that is not numeric.
\<close>

record env =
  CUSTOMER_JWT_SECRET :: "string option"
  NODE_ENV :: "string option"
  CUSTOMER_OTP_TTL_MS :: "js_number option"
  CUSTOMER_JWT_TTL :: "string option"

text \<open>What \<^verbatim>\<open>jwt.sign\<close> is given, and what \<^verbatim>\<open>jwt.decode\<close> and \<^verbatim>\<open>jwt.verify\<close> give back.\<close>

record jwt_payload =
  jwt_sub :: customer_id
  jwt_phone :: string
  jwt_jti :: string
  jwt_typ :: string

record jwt_claims =
  claim_typ :: "string option"
  claim_exp :: "int option"

text \<open>
  The libraries the controller calls (\<^verbatim>\<open>node:crypto\<close>, \<^verbatim>\<open>jsonwebtoken\<close>) are
  parameters. A call that throws returns \<open>Inl\<close> with the message.
  \<open>jwtSign payload secret expiresIn now\<close>, \<open>jwtVerify token secret now\<close>.
  \<open>storesTimestamp t\<close>: the driver and the timestamp columns take the valid
  \<^verbatim>\<open>Date\<close> with time value \<open>t\<close>; which dates they take depends on the columns'
  declaration in \<^verbatim>\<open>db/schema.js\<close>, which is not among the sources.
\<close>

record platform =
  sha256Hex :: "string \<Rightarrow> string"
  storesTimestamp :: "int \<Rightarrow> bool"
  jwtSign :: "jwt_payload \<Rightarrow> string \<Rightarrow> string \<Rightarrow> int \<Rightarrow> string + string"
  jwtDecode :: "string \<Rightarrow> jwt_claims option"
  jwtVerify :: "string \<Rightarrow> string \<Rightarrow> int \<Rightarrow> string + jwt_claims"

text \<open>
  The values one call draws from outside: \<^verbatim>\<open>Math.random\<close> (as the six-digit string
  it yields), \<^verbatim>\<open>crypto.randomUUID\<close>, and the defaults the database fills in for a
  new customer row (its id and creation time; \<^verbatim>\<open>db/schema.js\<close> declares them).
\<close>

record draws =
  randomOtp :: string
  randomUUID :: string
  newCustomerId :: customer_id
  newCreatedAt :: int

datatype body =
    ErrorBody string
  | OkBody
  | LoginBody string customer_row

text \<open>
  What a handler did with the request: \<^verbatim>\<open>res.status(n).json(body)\<close>,
  \<^verbatim>\<open>res.status(n).send()\<close>, or \<^verbatim>\<open>next(err)\<close> with a text that names the error.
\<close>

datatype response =
    Json nat body
  | Send nat
  | Next string

section \<open>Helpers\<close>

definition OTP_TTL_MS :: "env \<Rightarrow> js_number" where
  "OTP_TTL_MS e = (case CUSTOMER_OTP_TTL_MS e of None \<Rightarrow> Num (1000 * 60 * 5) | Some n \<Rightarrow> n)"

text \<open>\<^verbatim>\<open>Date.now() + x\<close> and \<^verbatim>\<open>Number(exp) * 1000\<close>.\<close>

definition plus_ms :: "int \<Rightarrow> js_number \<Rightarrow> js_number" where
  "plus_ms now x = (case x of NaN \<Rightarrow> NaN | Num n \<Rightarrow> Num (now + n))"

definition times_1000 :: "int \<Rightarrow> js_number" where
  "times_1000 exp = Num (exp * 1000)"

text \<open>
  \<^verbatim>\<open>new Date(x)\<close>: its time value, or \<open>None\<close> for the invalid \<^verbatim>\<open>Date\<close> that a
  \<open>NaN\<close> or a number beyond 8.64e15 milliseconds from the epoch gives.
\<close>

definition newDate :: "js_number \<Rightarrow> int option" where
  "newDate x =
     (case x of
        NaN \<Rightarrow> None
      | Num t \<Rightarrow> if - 8640000000000000 \<le> t \<and> t \<le> 8640000000000000 then Some t else None)"

text \<open>A string the database takes as a text parameter: PostgreSQL refuses the code unit 0.\<close>

definition pgText :: "string \<Rightarrow> bool" where
  "pgText s = (CHR 0x00 \<notin> set s)"

definition JWT_TTL :: "env \<Rightarrow> string" where
  "JWT_TTL e =
     (case CUSTOMER_JWT_TTL e of None \<Rightarrow> ''7d'' | Some s \<Rightarrow> if s = [] then ''7d'' else s)"

definition tokenToHash :: "platform \<Rightarrow> string \<Rightarrow> string" where
  "tokenToHash lib token = sha256Hex lib token"

definition otpToHash :: "platform \<Rightarrow> string \<Rightarrow> string \<Rightarrow> string" where
  "otpToHash lib ph otp = sha256Hex lib (ph @ '':'' @ otp)"

text \<open>
  \<^verbatim>\<open>String.prototype.trim\<close> removes white space and line terminators at both ends;
  among the code units below 256 these are 9 to 13, 32 and 160.
\<close>

definition isWhiteSpace :: "char \<Rightarrow> bool" where
  "isWhiteSpace c = ((of_char c :: nat) \<in> {9, 10, 11, 12, 13, 32, 160})"

definition trim :: "string \<Rightarrow> string" where
  "trim s = rev (dropWhile isWhiteSpace (rev (dropWhile isWhiteSpace s)))"

definition normalizePhone :: "string option \<Rightarrow> string" where
  "normalizePhone p = trim (case p of None \<Rightarrow> [] | Some s \<Rightarrow> s)"

definition requireJwtSecret :: "env \<Rightarrow> string + string" where
  "requireJwtSecret e =
     (let secret = (case CUSTOMER_JWT_SECRET e of
                      None \<Rightarrow> ''dev-customer-jwt-secret''
                    | Some s \<Rightarrow> if s = [] then ''dev-customer-jwt-secret'' else s);
          isProd = (NODE_ENV e = Some ''production'')
      in if isProd \<and> secret = ''dev-customer-jwt-secret''
         then Inl ''CUSTOMER_JWT_SECRET is required in production''
         else Inr secret)"

text \<open>\<^verbatim>\<open>String.prototype.split\<close> with a one-character separator.\<close>

fun split :: "char \<Rightarrow> string \<Rightarrow> string list" where
  "split sep [] = [[]]"
| "split sep (c # cs) =
     (if c = sep then [] # split sep cs
      else (case split sep cs of [] \<Rightarrow> [[c]] | w # ws \<Rightarrow> (c # w) # ws))"

definition extractBearerToken :: "request \<Rightarrow> string option" where
  "extractBearerToken req =
     (let header = (case authorization req of None \<Rightarrow> [] | Some h \<Rightarrow> h);
          parts = split CHR '' '' header;
          scheme = (case parts of [] \<Rightarrow> None | s # _ \<Rightarrow> Some s);
          token = (case parts of _ # t # _ \<Rightarrow> Some t | _ \<Rightarrow> None)
      in if scheme \<noteq> Some ''Bearer'' \<or> token = None \<or> token = Some [] then None else token)"

definition isPhoneWhitelistedRow :: "string option \<Rightarrow> bool" where
  "isPhoneWhitelistedRow row = (case row of None \<Rightarrow> False | Some ph \<Rightarrow> ph \<noteq> [])"

section \<open>The queries\<close>

text \<open>
  \<^verbatim>\<open>select({phone}).from(phoneWhitelist).where(eq(phoneWhitelist.phone, phone)).limit(1)\<close>:
  the query throws for a phone the database does not take as a parameter.
\<close>

definition selectWhitelist :: "string \<Rightarrow> string list \<Rightarrow> string + string list" where
  "selectWhitelist ph rows =
     (if pgText ph then Inr (take 1 (filter (\<lambda>p. p = ph) rows))
      else Inl ''invalid byte sequence for encoding UTF8: 0x00'')"

text \<open>
  \<^verbatim>\<open>insert(customerOtps).values(..).onConflictDoUpdate({target: customerOtps.phone, set: ..})\<close>:
  a row with this phone is overwritten in place, otherwise the row is added.
\<close>

definition upsertOtp :: "string \<Rightarrow> string \<Rightarrow> int \<Rightarrow> otp_row list \<Rightarrow> otp_row list" where
  "upsertOtp ph otpHash expiresAt rows =
     (if find (\<lambda>r. otp_phone r = ph) rows = None
      then rows @ [\<lparr>otp_phone = ph, otp_otpHash = otpHash,
                     otp_expiresAt = Some expiresAt, otp_used = False\<rparr>]
      else map (\<lambda>r. if otp_phone r = ph
                      then r\<lparr>otp_otpHash := otpHash, otp_expiresAt := Some expiresAt,
                             otp_used := False\<rparr>
                      else r) rows)"

text \<open>
  The same insert, given the \<^verbatim>\<open>Date\<close> the handler built: it throws, and writes nothing,
  for an invalid \<^verbatim>\<open>Date\<close> and for one the column does not take.
\<close>

definition insertOtp ::
  "platform \<Rightarrow> string \<Rightarrow> string \<Rightarrow> int option \<Rightarrow> otp_row list \<Rightarrow> string + otp_row list" where
  "insertOtp lib ph otpHash expiresAt rows =
     (case expiresAt of
        None \<Rightarrow> Inl ''Invalid time value''
      | Some t \<Rightarrow>
          if storesTimestamp lib t then Inr (upsertOtp ph otpHash t rows)
          else Inl ''timestamp out of range'')"

text \<open>
  \<^verbatim>\<open>update(customerOtps).set({used: true}).where(phone = ph and used = false).returning(..)\<close>:
  the rows it returns and the table afterwards.
\<close>

definition markUsed :: "string \<Rightarrow> otp_row list \<Rightarrow> otp_row list \<times> otp_row list" where
  "markUsed ph rows =
     (filter (\<lambda>r. otp_phone r = ph \<and> otp_used r = False) rows,
      map (\<lambda>r. if otp_phone r = ph \<and> otp_used r = False then r\<lparr>otp_used := True\<rparr> else r) rows)"

text \<open>\<^verbatim>\<open>insert(customers).values(..).returning(..)\<close>: the rows it returns and the table afterwards.\<close>

definition insertCustomer ::
  "customer_row \<Rightarrow> customer_row list \<Rightarrow> customer_row list \<times> customer_row list" where
  "insertCustomer row rows = ([row], rows @ [row])"

text \<open>
  \<^verbatim>\<open>insert(customerSessions).values(..).onConflictDoNothing({target: tokenHash})\<close>, given
  the \<^verbatim>\<open>Date\<close> the callback built: it throws for an invalid \<^verbatim>\<open>Date\<close> and for one the
  column does not take; otherwise the row is added unless its token hash is there.
\<close>

definition insertSession ::
  "platform \<Rightarrow> customer_id \<Rightarrow> string \<Rightarrow> int option \<Rightarrow> session_row list
     \<Rightarrow> string + session_row list" where
  "insertSession lib customerId tokenHash expiresAt rows =
     (case expiresAt of
        None \<Rightarrow> Inl ''Invalid time value''
      | Some t \<Rightarrow>
          if storesTimestamp lib t
          then Inr (if find (\<lambda>s. sess_tokenHash s = tokenHash) rows = None
                    then rows @ [\<lparr>sess_customerId = customerId, sess_tokenHash = tokenHash,
                                   sess_expiresAt = t\<rparr>]
                    else rows)
          else Inl ''timestamp out of range'')"

text \<open>
  \<^verbatim>\<open>db.transaction(callback)\<close>: what the callback wrote is kept when it returns and
  undone when it throws.
\<close>

definition transaction ::
  "(state \<Rightarrow> (string + 'a) \<times> state) \<Rightarrow> state \<Rightarrow> (string + 'a) \<times> state" where
  "transaction callback st =
     (case callback st of
        (Inl err, _) \<Rightarrow> (Inl err, st)
      | (Inr r, st') \<Rightarrow> (Inr r, st'))"

section \<open>The handlers\<close>

text \<open>
  Modelled from the spec: \<^verbatim>\<open>utils/customerOtp.js\<close> is not among the sources. The
  spec has it dispatch the raw code out-of-band (for example by SMS), fire-and-forget and
  not awaited. The model records the \<open>(phone, otp)\<close> pair it is handed.
\<close>

definition customerOtp :: "string \<Rightarrow> string \<Rightarrow> state \<Rightarrow> state" where
  "customerOtp ph otp st = st\<lparr>outbox := outbox st @ [(ph, otp)]\<rparr>"

definition sendOtp ::
  "platform \<Rightarrow> env \<Rightarrow> draws \<Rightarrow> int \<Rightarrow> request \<Rightarrow> state \<Rightarrow> response \<times> state" where
  "sendOtp lib e d now req st =
     (let ph = normalizePhone (body_phone req) in
      if ph = [] then (Json 400 (ErrorBody ''PHONE_REQUIRED''), st)
      else
        (case selectWhitelist ph (phoneWhitelist st) of
           Inl err \<Rightarrow> (Next err, st)
         | Inr wlRows \<Rightarrow>
             if \<not> isPhoneWhitelistedRow (case wlRows of [] \<Rightarrow> None | r # _ \<Rightarrow> Some r)
             then (Json 403 (ErrorBody ''PHONE_NOT_WHITELISTED''), st)
             else
               let otp = randomOtp d;
                   expiresAt = newDate (plus_ms now (OTP_TTL_MS e));
                   otpHash = otpToHash lib ph otp
               in (case insertOtp lib ph otpHash expiresAt (customerOtps st) of
                     Inl err \<Rightarrow> (Next err, st)
                   | Inr otps \<Rightarrow>
                       (Json 200 OkBody, customerOtp ph otp (st\<lparr>customerOtps := otps\<rparr>)))))"

datatype tx_result =
    otp_invalid
  | otp_expired
  | failed
  | token_failed
  | ok string customer_row

text \<open>
  The callback of the transaction in \<^verbatim>\<open>verifyOtp\<close>. Its queries by phone are modelled
  for a phone the database takes as a parameter, as every phone that a row holds is.
\<close>

definition verifyOtpTx ::
  "platform \<Rightarrow> env \<Rightarrow> draws \<Rightarrow> int \<Rightarrow> string \<Rightarrow> string \<Rightarrow> state
     \<Rightarrow> (string + tx_result) \<times> state" where
  "verifyOtpTx lib e d now ph expectedHash tx =
     (case find (\<lambda>r. otp_phone r = ph) (customerOtps tx) of
        None \<Rightarrow> (Inr otp_invalid, tx)
      | Some otpRow \<Rightarrow>
          if otp_used otpRow then (Inr otp_invalid, tx)
          else if (case otp_expiresAt otpRow of None \<Rightarrow> False | Some ex \<Rightarrow> now > ex)
          then (Inr otp_expired,
                tx\<lparr>customerOtps := filter (\<lambda>r. otp_phone r \<noteq> ph) (customerOtps tx)\<rparr>)
          else if otp_otpHash otpRow \<noteq> expectedHash then (Inr otp_invalid, tx)
          else
            let (usedRows, otps1) = markUsed ph (customerOtps tx);
                tx1 = tx\<lparr>customerOtps := otps1\<rparr>
            in if usedRows = [] then (Inr otp_invalid, tx1)
               else
                 let (customer, tx2) =
                       (case find (\<lambda>c. cust_phone c = ph) (customers tx1) of
                          Some c \<Rightarrow> (Some c, tx1)
                        | None \<Rightarrow>
                            let last4 = drop (length ph - 4) ph;
                                (inserted, custs1) =
                                  insertCustomer
                                    \<lparr>cust_id = newCustomerId d,
                                     cust_name = (if last4 \<noteq> [] then ''Customer '' @ last4
                                                  else ''Customer''),
                                     cust_phone = ph,
                                     cust_email = None,
                                     cust_createdAt = newCreatedAt d\<rparr>
                                    (customers tx1)
                            in (case inserted of [] \<Rightarrow> None | c # _ \<Rightarrow> Some c,
                                tx1\<lparr>customers := custs1\<rparr>))
                 in (case customer of
                       None \<Rightarrow> (Inr failed, tx2)
                     | Some customer \<Rightarrow>
                         let jti = randomUUID d in
                         (case requireJwtSecret e of
                            Inl err \<Rightarrow> (Inl err, tx2)
                          | Inr secret \<Rightarrow>
                              (case jwtSign lib
                                      \<lparr>jwt_sub = cust_id customer,
                                       jwt_phone = cust_phone customer,
                                       jwt_jti = jti,
                                       jwt_typ = ''customer''\<rparr>
                                      secret (JWT_TTL e) now of
                                 Inl err \<Rightarrow> (Inl err, tx2)
                               | Inr token \<Rightarrow>
                                   (case (case jwtDecode lib token of
                                            None \<Rightarrow> None
                                          | Some decoded \<Rightarrow> claim_exp decoded) of
                                      None \<Rightarrow> (Inr token_failed, tx2)
                                    | Some exp \<Rightarrow>
                                        if exp = 0 then (Inr token_failed, tx2)
                                        else
                                          let tokenHash = tokenToHash lib token;
                                              tokenExpiresAt = newDate (times_1000 exp)
                                          in (case insertSession lib (cust_id customer)
                                                     tokenHash tokenExpiresAt
                                                     (customerSessions tx2) of
                                                Inl err \<Rightarrow> (Inl err, tx2)
                                              | Inr sessions \<Rightarrow>
                                                  (Inr (ok token customer),
                                                   tx2\<lparr>customerSessions := sessions\<rparr>)))))))"

definition verifyOtp ::
  "platform \<Rightarrow> env \<Rightarrow> draws \<Rightarrow> int \<Rightarrow> request \<Rightarrow> state \<Rightarrow> response \<times> state" where
  "verifyOtp lib e d now req st =
     (let ph = normalizePhone (body_phone req);
          otp = trim (case body_otp req of None \<Rightarrow> [] | Some s \<Rightarrow> s)
      in if ph = [] \<or> otp = []
         then (Json 400 (ErrorBody ''PHONE_AND_OTP_REQUIRED''), st)
         else
           let expectedHash = otpToHash lib ph otp in
           (case transaction (verifyOtpTx lib e d now ph expectedHash) st of
              (Inl err, st') \<Rightarrow> (Next err, st')
            | (Inr result, st') \<Rightarrow>
                (case result of
                   otp_expired \<Rightarrow> (Json 401 (ErrorBody ''OTP_EXPIRED''), st')
                 | otp_invalid \<Rightarrow> (Json 401 (ErrorBody ''OTP_INVALID''), st')
                 | token_failed \<Rightarrow> (Json 500 (ErrorBody ''TOKEN_CREATE_FAILED''), st')
                 | failed \<Rightarrow> (Json 500 (ErrorBody ''LOGIN_FAILED''), st')
                 | ok token customer \<Rightarrow> (Json 200 (LoginBody token customer), st'))))"

definition logout ::
  "platform \<Rightarrow> env \<Rightarrow> int \<Rightarrow> request \<Rightarrow> state \<Rightarrow> response \<times> state" where
  "logout lib e now req st =
     (case extractBearerToken req of
        None \<Rightarrow> (Json 401 (ErrorBody ''TOKEN_REQUIRED''), st)
      | Some token \<Rightarrow>
          (case requireJwtSecret e of
             Inl err \<Rightarrow> (Next err, st)
           | Inr secret \<Rightarrow>
               (case jwtVerify lib token secret now of
                  Inl _ \<Rightarrow> (Json 401 (ErrorBody ''TOKEN_INVALID''), st)
                | Inr payload \<Rightarrow>
                    if claim_typ payload \<noteq> Some ''customer''
                    then (Json 401 (ErrorBody ''TOKEN_INVALID''), st)
                    else
                      let tokenHash = tokenToHash lib token in
                      (Send 204,
                       st\<lparr>customerSessions :=
                            filter (\<lambda>s. sess_tokenHash s \<noteq> tokenHash) (customerSessions st)\<rparr>))))"

definition revokeToken ::
  "platform \<Rightarrow> env \<Rightarrow> int \<Rightarrow> request \<Rightarrow> state \<Rightarrow> response \<times> state" where
  "revokeToken lib e now req st = logout lib e now req st"

section \<open>A small platform for evaluating the handlers\<close>

text \<open>
  Concrete stand-ins for the libraries, used only where a handler is evaluated on a
  concrete input. The hash is injective. A token is \<open>typ.jti.secret\<close>; verifying compares
  the last part with the secret; the expiry a decoded token carries is the parameter. The
  timestamp columns take the dates of the years 1970 to 9999.
\<close>

definition stub_platform :: "int option \<Rightarrow> platform" where
  "stub_platform exp =
     \<lparr>sha256Hex = (\<lambda>s. ''#'' @ s),
      storesTimestamp = (\<lambda>t. 0 \<le> t \<and> t \<le> 253402300799999),
      jwtSign = (\<lambda>p secret ttl now. Inr (jwt_typ p @ ''.'' @ jwt_jti p @ ''.'' @ secret)),
      jwtDecode = (\<lambda>token.
         Some \<lparr>claim_typ = Some (hd (split CHR ''.'' token)), claim_exp = exp\<rparr>),
      jwtVerify = (\<lambda>token secret now.
         if last (split CHR ''.'' token) = secret
         then Inr \<lparr>claim_typ = Some (hd (split CHR ''.'' token)), claim_exp = exp\<rparr>
         else Inl ''invalid signature'')\<rparr>"

definition dev_env :: env where
  "dev_env = \<lparr>CUSTOMER_JWT_SECRET = None, NODE_ENV = None,
              CUSTOMER_OTP_TTL_MS = None, CUSTOMER_JWT_TTL = None\<rparr>"

definition empty_state :: state where
  "empty_state = \<lparr>phoneWhitelist = [], customerOtps = [], customers = [],
                  customerSessions = [], outbox = []\<rparr>"

definition bearer :: "string \<Rightarrow> request" where
  "bearer h = \<lparr>authorization = Some h, body_phone = None, body_otp = None\<rparr>"

definition form :: "string \<Rightarrow> string \<Rightarrow> request" where
  "form ph otp = \<lparr>authorization = None, body_phone = Some ph, body_otp = Some otp\<rparr>"

definition demo_draws :: draws where
  "demo_draws = \<lparr>randomOtp = ''482913'', randomUUID = ''u1'',
                 newCustomerId = 7, newCreatedAt = 1000\<rparr>"

definition keyed_env :: env where
  "keyed_env = dev_env\<lparr>NODE_ENV := Some ''production'', CUSTOMER_JWT_SECRET := Some ''k3y''\<rparr>"

definition session_of :: "string \<Rightarrow> session_row" where
  "session_of token =
     \<lparr>sess_customerId = 7, sess_tokenHash = ''#'' @ token, sess_expiresAt = 1700000000000\<rparr>"

definition live_state :: state where
  "live_state =
     empty_state\<lparr>phoneWhitelist := [''+919876543210''],
                  customerOtps := [\<lparr>otp_phone = ''+919876543210'',
                                    otp_otpHash = ''#+919876543210:482913'',
                                    otp_expiresAt = Some 300000,
                                    otp_used = False\<rparr>]\<rparr>"

definition listed_state :: state where
  "listed_state = empty_state\<lparr>phoneWhitelist := [''+919876543210'']\<rparr>"

definition returning_state :: state where
  "returning_state =
     live_state\<lparr>customers := [\<lparr>cust_id = 3, cust_name = ''Asha'',
                                  cust_phone = ''+919876543210'',
                                  cust_email = Some ''asha@example.org'',
                                  cust_createdAt = 5\<rparr>]\<rparr>"

section \<open>The invariant of the OTP table\<close>

text \<open>No two rows of \<^verbatim>\<open>customerOtps\<close> have the same phone.\<close>

definition onePerPhone :: "state \<Rightarrow> bool" where
  "onePerPhone st = distinct (map otp_phone (customerOtps st))"

section \<open>The signing secret\<close>

text \<open>
  C9. \<^verbatim>\<open>requireJwtSecret\<close> throws exactly when \<^verbatim>\<open>NODE_ENV\<close> is \<^verbatim>\<open>"production"\<close> and the
  configured secret is unset (not defined, or the empty string, which \<^verbatim>\<open>||\<close> replaces by
  the default just the same) or equal to the placeholder \<^verbatim>\<open>"dev-customer-jwt-secret"\<close>. In
  every other configuration it returns the configured secret, or the default when none
  is configured. A throw is a result \<open>Inl\<close>, which \<open>isl\<close> tests.
\<close>

theorem requireJwtSecret_throws_iff:
  "(isl (requireJwtSecret e) \<longleftrightarrow>
      NODE_ENV e = Some ''production'' \<and>
      (CUSTOMER_JWT_SECRET e = None \<or> CUSTOMER_JWT_SECRET e = Some [] \<or>
       CUSTOMER_JWT_SECRET e = Some ''dev-customer-jwt-secret''))
   \<and> (\<not> isl (requireJwtSecret e) \<longrightarrow>
        requireJwtSecret e =
          Inr (if CUSTOMER_JWT_SECRET e = None \<or> CUSTOMER_JWT_SECRET e = Some []
               then ''dev-customer-jwt-secret'' else the (CUSTOMER_JWT_SECRET e)))"
  by (auto simp: requireJwtSecret_def Let_def split: option.splits)

theorem requireJwtSecret_throws_iff_witness:
  "isl (requireJwtSecret (dev_env\<lparr>NODE_ENV := Some ''production''\<rparr>))
   \<and> requireJwtSecret (dev_env\<lparr>NODE_ENV := Some ''production'',
                                 CUSTOMER_JWT_SECRET := Some ''k3y''\<rparr>) = Inr ''k3y''
   \<and> requireJwtSecret dev_env = Inr ''dev-customer-jwt-secret''"
  using requireJwtSecret_throws_iff [of "dev_env\<lparr>NODE_ENV := Some ''production''\<rparr>"]
    requireJwtSecret_throws_iff
      [of "dev_env\<lparr>NODE_ENV := Some ''production'', CUSTOMER_JWT_SECRET := Some ''k3y''\<rparr>"]
    requireJwtSecret_throws_iff [of dev_env]
  by (simp add: dev_env_def)

section \<open>Bearer tokens\<close>

lemma split_ne: "split sep s \<noteq> []"
  by (induction s) (auto split: list.splits)

lemma split_unfold:
  "split sep s =
     takeWhile (\<lambda>c. c \<noteq> sep) s #
       (case dropWhile (\<lambda>c. c \<noteq> sep) s of [] \<Rightarrow> [] | _ # r \<Rightarrow> split sep r)"
proof (induction s)
  case Nil
  show ?case by simp
next
  case (Cons c cs)
  show ?case
  proof (cases "c = sep")
    case True
    then show ?thesis by simp
  next
    case False
    obtain w ws where w: "split sep cs = w # ws"
      using split_ne [of sep cs] by (cases "split sep cs") auto
    with Cons False show ?thesis by simp
  qed
qed

lemma extractBearerToken_split:
  "extractBearerToken req = Some t \<longleftrightarrow>
     (\<exists>rest. split CHR '' '' (case authorization req of None \<Rightarrow> [] | Some h \<Rightarrow> h)
               = ''Bearer'' # t # rest) \<and> t \<noteq> []"
  by (auto simp: extractBearerToken_def Let_def split: list.splits)

lemma takeWhile_upto_sep:
  "sep \<notin> set a \<Longrightarrow> takeWhile (\<lambda>c. c \<noteq> sep) (a @ sep # r) = a"
  by (induction a) auto

lemma dropWhile_upto_sep:
  "sep \<notin> set a \<Longrightarrow> dropWhile (\<lambda>c. c \<noteq> sep) (a @ sep # r) = sep # r"
  by (induction a) auto

lemma takeWhile_no_sep:
  "sep \<notin> set a \<Longrightarrow> takeWhile (\<lambda>c. c \<noteq> sep) a = a"
  by (induction a) auto

lemma dropWhile_no_sep:
  "sep \<notin> set a \<Longrightarrow> dropWhile (\<lambda>c. c \<noteq> sep) a = []"
  by (induction a) auto

text \<open>
  When \<^verbatim>\<open>split\<close> yields at least two parts: the string is the first part, the
  separator, the second part, and then nothing or a separator again.
\<close>

lemma split_two:
  "split sep s = a # t # rest \<longleftrightarrow>
     sep \<notin> set a \<and> sep \<notin> set t \<and>
     (\<exists>r. s = a @ sep # t @ r \<and>
          rest = (case r of [] \<Rightarrow> [] | _ # r' \<Rightarrow> split sep r') \<and> (r = [] \<or> hd r = sep))"
  (is "?L \<longleftrightarrow> ?R")
proof
  assume L: ?L
  let ?P = "\<lambda>c. c \<noteq> sep"
  from L have a: "a = takeWhile ?P s"
    and tl1: "(case dropWhile ?P s of [] \<Rightarrow> [] | _ # r \<Rightarrow> split sep r) = t # rest"
    using split_unfold [of sep s] by simp_all
  from tl1 obtain x r0 where d: "dropWhile ?P s = x # r0" and r0: "split sep r0 = t # rest"
    by (cases "dropWhile ?P s") auto
  have x: "x = sep" using hd_dropWhile [of ?P s] d by simp
  from r0 have t: "t = takeWhile ?P r0"
    and rest: "rest = (case dropWhile ?P r0 of [] \<Rightarrow> [] | _ # r \<Rightarrow> split sep r)"
    using split_unfold [of sep r0] by simp_all
  have s: "s = a @ sep # t @ dropWhile ?P r0"
    using takeWhile_dropWhile_id [of ?P s] takeWhile_dropWhile_id [of ?P r0] a d x t by simp
  have hdr: "dropWhile ?P r0 = [] \<or> hd (dropWhile ?P r0) = sep"
    using hd_dropWhile [of ?P r0] by auto
  have "sep \<notin> set a" "sep \<notin> set t"
    using a t by (auto dest: set_takeWhileD)
  with s rest hdr show ?R by blast
next
  assume R: ?R
  let ?P = "\<lambda>c. c \<noteq> sep"
  from R obtain r where a: "sep \<notin> set a" and t: "sep \<notin> set t"
    and s: "s = a @ sep # t @ r"
    and rest: "rest = (case r of [] \<Rightarrow> [] | _ # r' \<Rightarrow> split sep r')"
    and r: "r = [] \<or> hd r = sep" by blast
  have tw: "takeWhile ?P s = a" and dw: "dropWhile ?P s = sep # t @ r"
    using a s by (simp_all add: takeWhile_upto_sep dropWhile_upto_sep)
  have tw2: "takeWhile ?P (t @ r) = t" and dw2: "dropWhile ?P (t @ r) = r"
    using t r
    by (cases r; simp add: takeWhile_upto_sep dropWhile_upto_sep takeWhile_no_sep dropWhile_no_sep)+
  show ?L
    using split_unfold [of sep s] split_unfold [of sep "t @ r"] tw dw tw2 dw2 rest
    by simp
qed

text \<open>
  C10. \<^verbatim>\<open>extractBearerToken\<close> yields a token \<open>t\<close> exactly when the
  \<^verbatim>\<open>Authorization\<close> header is the case-sensitive word \<^verbatim>\<open>Bearer\<close>, one space, and
  a non-empty \<open>t\<close> without a space, followed by nothing or by a space and anything (the
  first two parts of the header split at single spaces). For every other header
  \<^verbatim>\<open>logout\<close> answers 401 \<^verbatim>\<open>TOKEN_REQUIRED\<close> and leaves the state as it was, whatever the
  libraries and the environment are: neither the secret nor the signature is looked at.
\<close>

theorem extractBearerToken_strict:
  "(extractBearerToken req = Some t \<longleftrightarrow>
      t \<noteq> [] \<and> CHR '' '' \<notin> set t \<and>
      (\<exists>r. authorization req = Some (''Bearer '' @ t @ r) \<and> (r = [] \<or> hd r = CHR '' '')))
   \<and> (extractBearerToken req = None \<longrightarrow>
        logout lib e now req st = (Json 401 (ErrorBody ''TOKEN_REQUIRED''), st))"
proof -
  have 1: "extractBearerToken req = None \<longrightarrow>
        logout lib e now req st = (Json 401 (ErrorBody ''TOKEN_REQUIRED''), st)"
    by (simp add: logout_def)
  have 2: "extractBearerToken req = Some t \<longleftrightarrow>
      t \<noteq> [] \<and> CHR '' '' \<notin> set t \<and>
      (\<exists>r. authorization req = Some (''Bearer '' @ t @ r) \<and> (r = [] \<or> hd r = CHR '' ''))"
  proof (cases "authorization req")
    case None
    then show ?thesis by (simp add: extractBearerToken_def)
  next
    case (Some h)
    then show ?thesis
      unfolding extractBearerToken_split split_two by auto
  qed
  from 1 2 show ?thesis by blast
qed

theorem extractBearerToken_strict_witness:
  "extractBearerToken (bearer ''Bearer abc.def xyz'') = Some ''abc.def''
   \<and> logout (stub_platform None) (dev_env\<lparr>NODE_ENV := Some ''production''\<rparr>) 0
        (bearer ''bearer abc.def'') empty_state
      = (Json 401 (ErrorBody ''TOKEN_REQUIRED''), empty_state)
   \<and> logout (stub_platform None) dev_env 0 (bearer ''Bearer'') empty_state
      = (Json 401 (ErrorBody ''TOKEN_REQUIRED''), empty_state)
   \<and> logout (stub_platform None) dev_env 0 (bearer ''Bearer  abc.def'') empty_state
      = (Json 401 (ErrorBody ''TOKEN_REQUIRED''), empty_state)
   \<and> logout (stub_platform None) dev_env 0 (form ''1'' ''2'') empty_state
      = (Json 401 (ErrorBody ''TOKEN_REQUIRED''), empty_state)"
proof -
  have none: "extractBearerToken (bearer ''bearer abc.def'') = None"
    "extractBearerToken (bearer ''Bearer'') = None"
    "extractBearerToken (bearer ''Bearer  abc.def'') = None"
    "extractBearerToken (form ''1'' ''2'') = None"
    by (simp_all add: extractBearerToken_def bearer_def form_def)
  have some: "authorization (bearer ''Bearer abc.def xyz'') = Some (''Bearer '' @ ''abc.def'' @ '' xyz'')"
    by (simp add: bearer_def)
  show ?thesis
    using none some
      extractBearerToken_strict [of "bearer ''Bearer abc.def xyz''" "''abc.def''"]
      extractBearerToken_strict [of "bearer ''bearer abc.def''" _ "stub_platform None"
        "dev_env\<lparr>NODE_ENV := Some ''production''\<rparr>" 0 empty_state]
      extractBearerToken_strict [of "bearer ''Bearer''" _ "stub_platform None" dev_env 0 empty_state]
      extractBearerToken_strict [of "bearer ''Bearer  abc.def''" _ "stub_platform None" dev_env 0 empty_state]
      extractBearerToken_strict [of "form ''1'' ''2''" _ "stub_platform None" dev_env 0 empty_state]
    by auto
qed

section \<open>Issuing a code\<close>

text \<open>
  C5, as the code has it. The claim that every non-blank phone without a whitelist entry
  is answered 403 does not hold for a phone the whitelist query cannot take: the query
  throws and the handler passes the error to \<^verbatim>\<open>next\<close>. Below, the phone holds the code
  unit 0, which \<^verbatim>\<open>trim\<close> leaves in place.
\<close>

theorem sendOtp_unlisted_phone_error:
  "sendOtp (stub_platform None) dev_env demo_draws 0 (form [CHR ''5'', CHR 0x00, CHR ''5''] [])
       listed_state
     = (Next ''invalid byte sequence for encoding UTF8: 0x00'', listed_state)"
  by (simp add: sendOtp_def selectWhitelist_def pgText_def normalizePhone_def trim_def
      isWhiteSpace_def form_def)

text \<open>
  C5, amended. A phone that is blank once trimmed gets 400 \<^verbatim>\<open>PHONE_REQUIRED\<close>. A
  non-blank phone that the database takes as a query parameter (it holds no code unit 0)
  and that, trimmed, has no whitelist entry gets 403 \<^verbatim>\<open>PHONE_NOT_WHITELISTED\<close>. A
  non-blank phone that the database does not take makes the whitelist query throw, and
  the error goes to \<^verbatim>\<open>next\<close>. In all three cases the state is the one before the call:
  no OTP record is created or changed and the delivery channel receives nothing, whatever
  code would have been drawn.
\<close>

theorem sendOtp_rejects_unlisted:
  "(normalizePhone (body_phone req) = [] \<longrightarrow>
      sendOtp lib e d now req st = (Json 400 (ErrorBody ''PHONE_REQUIRED''), st))
   \<and> (normalizePhone (body_phone req) \<noteq> [] \<and>
        pgText (normalizePhone (body_phone req)) \<and>
        normalizePhone (body_phone req) \<notin> set (phoneWhitelist st) \<longrightarrow>
      sendOtp lib e d now req st = (Json 403 (ErrorBody ''PHONE_NOT_WHITELISTED''), st))
   \<and> (normalizePhone (body_phone req) \<noteq> [] \<and>
        \<not> pgText (normalizePhone (body_phone req)) \<longrightarrow>
      (\<exists>err. sendOtp lib e d now req st = (Next err, st)))"
proof -
  have "filter (\<lambda>p. p = ph) wl = []" if "ph \<notin> set wl" for ph :: string and wl
    using that by (induction wl) auto
  then show ?thesis
    by (simp add: sendOtp_def selectWhitelist_def Let_def isPhoneWhitelistedRow_def)
qed

theorem sendOtp_rejects_unlisted_witness:
  "sendOtp (stub_platform None) dev_env demo_draws 0 (form '' 555 '' [])
       (empty_state\<lparr>phoneWhitelist := [''+919876543210'']\<rparr>)
     = (Json 403 (ErrorBody ''PHONE_NOT_WHITELISTED''),
        empty_state\<lparr>phoneWhitelist := [''+919876543210'']\<rparr>)
   \<and> sendOtp (stub_platform None) dev_env demo_draws 0 (form ''   '' [])
       (empty_state\<lparr>phoneWhitelist := [''+919876543210'']\<rparr>)
     = (Json 400 (ErrorBody ''PHONE_REQUIRED''),
        empty_state\<lparr>phoneWhitelist := [''+919876543210'']\<rparr>)
   \<and> (\<exists>err. sendOtp (stub_platform None) dev_env demo_draws 0 (form [CHR 0x00] [])
               (empty_state\<lparr>phoneWhitelist := [''+919876543210'']\<rparr>)
             = (Next err, empty_state\<lparr>phoneWhitelist := [''+919876543210'']\<rparr>))"
  using sendOtp_rejects_unlisted [of "form '' 555 '' []" "stub_platform None" dev_env demo_draws 0
      "empty_state\<lparr>phoneWhitelist := [''+919876543210'']\<rparr>"]
    sendOtp_rejects_unlisted [of "form ''   '' []" "stub_platform None" dev_env demo_draws 0
      "empty_state\<lparr>phoneWhitelist := [''+919876543210'']\<rparr>"]
    sendOtp_rejects_unlisted [of "form [CHR 0x00] []" "stub_platform None" dev_env demo_draws 0
      "empty_state\<lparr>phoneWhitelist := [''+919876543210'']\<rparr>"]
  by (simp add: normalizePhone_def trim_def isWhiteSpace_def form_def empty_state_def pgText_def)

section \<open>Logout\<close>

text \<open>
  C7. Given a bearer token and an accepted signing secret, a token that \<^verbatim>\<open>jwt.verify\<close>
  rejects, or accepts with a payload whose \<^verbatim>\<open>typ\<close> is not exactly \<^verbatim>\<open>"customer"\<close>
  (so also a validly signed, unexpired token of another principal), gets 401
  \<^verbatim>\<open>TOKEN_INVALID\<close>, and no session record is deleted: the state is unchanged.
\<close>

theorem logout_rejects_other_typ:
  assumes "extractBearerToken req = Some token"
    and "requireJwtSecret e = Inr secret"
    and "\<forall>payload. jwtVerify lib token secret now = Inr payload
            \<longrightarrow> claim_typ payload \<noteq> Some ''customer''"
  shows "logout lib e now req st = (Json 401 (ErrorBody ''TOKEN_INVALID''), st)"
  using assms by (simp add: logout_def split: sum.splits)

theorem logout_rejects_other_typ_witness:
  "logout (stub_platform (Some 1700000000)) keyed_env 5 (bearer ''Bearer rider.u1.k3y'')
       (empty_state\<lparr>customerSessions := [session_of ''rider.u1.k3y'']\<rparr>)
     = (Json 401 (ErrorBody ''TOKEN_INVALID''),
        empty_state\<lparr>customerSessions := [session_of ''rider.u1.k3y'']\<rparr>)"
proof -
  have 1: "extractBearerToken (bearer ''Bearer rider.u1.k3y'') = Some ''rider.u1.k3y''"
    by (simp add: extractBearerToken_def bearer_def)
  have 2: "requireJwtSecret keyed_env = Inr ''k3y''"
    by (simp add: requireJwtSecret_def keyed_env_def dev_env_def)
  have 3: "\<forall>payload. jwtVerify (stub_platform (Some 1700000000)) ''rider.u1.k3y'' ''k3y'' 5
              = Inr payload \<longrightarrow> claim_typ payload \<noteq> Some ''customer''"
    by (auto simp: stub_platform_def)
  show ?thesis
    by (rule logout_rejects_other_typ [OF 1 2 3])
qed

text \<open>
  C8. Logout is idempotent. For a bearer token that verifies under the accepted secret
  with \<^verbatim>\<open>typ = "customer"\<close>, \<^verbatim>\<open>logout\<close> answers 204 and the session store loses exactly
  the records with the token's hash, whether there was one or not (with none, the state
  is unchanged); a second logout with the same token answers 204 again and changes
  nothing.
\<close>

theorem logout_idempotent:
  assumes "extractBearerToken req = Some token"
    and "requireJwtSecret e = Inr secret"
    and "jwtVerify lib token secret now = Inr payload"
    and "claim_typ payload = Some ''customer''"
    and "jwtVerify lib token secret now' = Inr payload'"
    and "claim_typ payload' = Some ''customer''"
    and "st' = st\<lparr>customerSessions :=
                 filter (\<lambda>s. sess_tokenHash s \<noteq> tokenToHash lib token) (customerSessions st)\<rparr>"
  shows "logout lib e now req st = (Send 204, st')
       \<and> logout lib e now' req st' = (Send 204, st')
       \<and> (find (\<lambda>s. sess_tokenHash s = tokenToHash lib token) (customerSessions st) = None
            \<longrightarrow> st' = st)"
proof -
  have f: "filter (\<lambda>s. sess_tokenHash s \<noteq> h) rows = rows"
    if "find (\<lambda>s. sess_tokenHash s = h) rows = None" for h rows
    using that by (induction rows) (auto split: if_splits)
  show ?thesis
    using assms by (auto simp: logout_def Let_def f)
qed

theorem logout_idempotent_witness:
  "logout (stub_platform (Some 1700000000)) keyed_env 5 (bearer ''Bearer customer.u1.k3y'')
       (empty_state\<lparr>customerSessions :=
          [session_of ''customer.u0.k3y'', session_of ''customer.u1.k3y'']\<rparr>)
     = (Send 204, empty_state\<lparr>customerSessions := [session_of ''customer.u0.k3y'']\<rparr>)
   \<and> logout (stub_platform (Some 1700000000)) keyed_env 6 (bearer ''Bearer customer.u1.k3y'')
       (empty_state\<lparr>customerSessions := [session_of ''customer.u0.k3y'']\<rparr>)
     = (Send 204, empty_state\<lparr>customerSessions := [session_of ''customer.u0.k3y'']\<rparr>)"
proof -
  have 1: "extractBearerToken (bearer ''Bearer customer.u1.k3y'') = Some ''customer.u1.k3y''"
    by (simp add: extractBearerToken_def bearer_def)
  have 2: "requireJwtSecret keyed_env = Inr ''k3y''"
    by (simp add: requireJwtSecret_def keyed_env_def dev_env_def)
  have 3: "jwtVerify (stub_platform (Some 1700000000)) ''customer.u1.k3y'' ''k3y'' t
              = Inr \<lparr>claim_typ = Some ''customer'', claim_exp = Some 1700000000\<rparr>" for t
    by (simp add: stub_platform_def)
  have 4: "claim_typ \<lparr>claim_typ = Some ''customer'', claim_exp = Some 1700000000\<rparr>
             = Some ''customer''"
    by simp
  have 5: "empty_state\<lparr>customerSessions := [session_of ''customer.u0.k3y'']\<rparr>
      = (empty_state\<lparr>customerSessions :=
          [session_of ''customer.u0.k3y'', session_of ''customer.u1.k3y'']\<rparr>)
        \<lparr>customerSessions :=
           filter (\<lambda>s. sess_tokenHash s
                        \<noteq> tokenToHash (stub_platform (Some 1700000000)) ''customer.u1.k3y'')
             (customerSessions (empty_state\<lparr>customerSessions :=
                [session_of ''customer.u0.k3y'', session_of ''customer.u1.k3y'']\<rparr>))\<rparr>"
    by (simp add: tokenToHash_def stub_platform_def session_of_def)
  show ?thesis
    using logout_idempotent [OF 1 2 3 4 3 4 5, of 5 6] by simp
qed

section \<open>The transaction of \<^verbatim>\<open>verifyOtp\<close>, branch by branch\<close>

lemma verifyOtpTx_absent:
  "find (\<lambda>r. otp_phone r = ph) (customerOtps tx) = None
   \<Longrightarrow> verifyOtpTx lib e d now ph h tx = (Inr otp_invalid, tx)"
  by (simp add: verifyOtpTx_def)

lemma verifyOtpTx_used:
  "find (\<lambda>r. otp_phone r = ph) (customerOtps tx) = Some r \<Longrightarrow> otp_used r
   \<Longrightarrow> verifyOtpTx lib e d now ph h tx = (Inr otp_invalid, tx)"
  by (simp add: verifyOtpTx_def)

lemma verifyOtpTx_expired:
  "find (\<lambda>r. otp_phone r = ph) (customerOtps tx) = Some r \<Longrightarrow> \<not> otp_used r
   \<Longrightarrow> otp_expiresAt r = Some ex \<Longrightarrow> ex < now
   \<Longrightarrow> verifyOtpTx lib e d now ph h tx =
        (Inr otp_expired, tx\<lparr>customerOtps := filter (\<lambda>r. otp_phone r \<noteq> ph) (customerOtps tx)\<rparr>)"
  by (simp add: verifyOtpTx_def)

lemma verifyOtpTx_mismatch:
  "find (\<lambda>r. otp_phone r = ph) (customerOtps tx) = Some r \<Longrightarrow> \<not> otp_used r
   \<Longrightarrow> otp_otpHash r \<noteq> h
   \<Longrightarrow> verifyOtpTx lib e d now ph h tx = (Inr otp_invalid, tx)
     \<or> (\<exists>ex. otp_expiresAt r = Some ex \<and> ex < now \<and> verifyOtpTx lib e d now ph h tx =
        (Inr otp_expired, tx\<lparr>customerOtps := filter (\<lambda>r. otp_phone r \<noteq> ph) (customerOtps tx)\<rparr>))"
  by (auto simp add: verifyOtpTx_def split: option.splits)

lemma markUsed_hit:
  "find (\<lambda>r. otp_phone r = ph) rows = Some r \<Longrightarrow> \<not> otp_used r
   \<Longrightarrow> fst (markUsed ph rows) \<noteq> []"
  by (induction rows) (auto simp: markUsed_def split: if_splits)

lemma find_markUsed:
  "find (\<lambda>r. otp_phone r = ph) (snd (markUsed ph rows))
     = map_option (\<lambda>r. r\<lparr>otp_used := True\<rparr>) (find (\<lambda>r. otp_phone r = ph) rows)"
  by (induction rows) (auto simp: markUsed_def)

lemma map_phone_markUsed: "map otp_phone (snd (markUsed ph rows)) = map otp_phone rows"
  by (induction rows) (auto simp: markUsed_def)

text \<open>
  Past the four checks on the OTP row, the callback marks the row used, finds or creates
  the customer, and issues the token.
\<close>

lemma verifyOtpTx_live:
  assumes "find (\<lambda>r. otp_phone r = ph) (customerOtps tx) = Some r"
    and "\<not> otp_used r"
    and "\<forall>ex. otp_expiresAt r = Some ex \<longrightarrow> now \<le> ex"
    and "otp_otpHash r = h"
    and "customer = (case find (\<lambda>c. cust_phone c = ph) (customers tx) of
                      Some c \<Rightarrow> c
                    | None \<Rightarrow> \<lparr>cust_id = newCustomerId d,
                               cust_name = (if drop (length ph - 4) ph \<noteq> []
                                            then ''Customer '' @ drop (length ph - 4) ph
                                            else ''Customer''),
                               cust_phone = ph, cust_email = None,
                               cust_createdAt = newCreatedAt d\<rparr>)"
    and "tx2 = tx\<lparr>customerOtps := snd (markUsed ph (customerOtps tx)),
                  customers := (case find (\<lambda>c. cust_phone c = ph) (customers tx) of
                      Some c \<Rightarrow> customers tx | None \<Rightarrow> customers tx @ [customer])\<rparr>"
  shows "verifyOtpTx lib e d now ph h tx =
     (case requireJwtSecret e of
        Inl err \<Rightarrow> (Inl err, tx2)
      | Inr secret \<Rightarrow>
          (case jwtSign lib \<lparr>jwt_sub = cust_id customer, jwt_phone = cust_phone customer,
                            jwt_jti = randomUUID d, jwt_typ = ''customer''\<rparr>
                  secret (JWT_TTL e) now of
             Inl err \<Rightarrow> (Inl err, tx2)
           | Inr token \<Rightarrow>
               (case (case jwtDecode lib token of None \<Rightarrow> None
                      | Some decoded \<Rightarrow> claim_exp decoded) of
                  None \<Rightarrow> (Inr token_failed, tx2)
                | Some exp \<Rightarrow>
                    if exp = 0 then (Inr token_failed, tx2)
                    else
                      (case insertSession lib (cust_id customer) (tokenToHash lib token)
                              (newDate (times_1000 exp)) (customerSessions tx2) of
                         Inl err \<Rightarrow> (Inl err, tx2)
                       | Inr sessions \<Rightarrow>
                           (Inr (ok token customer), tx2\<lparr>customerSessions := sessions\<rparr>)))))"
proof -
  have hit: "fst (markUsed ph (customerOtps tx)) \<noteq> []"
    using assms(1,2) by (rule markUsed_hit)
  have nexp: "\<not> (case otp_expiresAt r of None \<Rightarrow> False | Some ex \<Rightarrow> now > ex)"
    using assms(3) by (auto split: option.splits)
  have len4 [simp]: "(length ph \<le> length ph - 4) = (ph = [])"
    by (cases ph) auto
  show ?thesis
  proof (cases "find (\<lambda>c. cust_phone c = ph) (customers tx)")
    case None
    with assms hit nexp show ?thesis
      by (simp add: verifyOtpTx_def Let_def insertCustomer_def split_beta
          split: sum.splits option.splits)
  next
    case (Some c)
    with assms hit nexp show ?thesis
      by (simp add: verifyOtpTx_def Let_def insertCustomer_def split_beta
          split: sum.splits option.splits)
  qed
qed

lemma markUsed_again: "fst (markUsed ph (snd (markUsed ph rows))) = []"
  by (induction rows) (auto simp: markUsed_def)

text \<open>The handler around the transaction, for a request that passes validation.\<close>

lemma verifyOtp_blank:
  "normalizePhone (body_phone req) = [] \<or> trim (case body_otp req of None \<Rightarrow> [] | Some s \<Rightarrow> s) = []
   \<Longrightarrow> verifyOtp lib e d now req st = (Json 400 (ErrorBody ''PHONE_AND_OTP_REQUIRED''), st)"
  by (auto simp: verifyOtp_def Let_def)

lemma verifyOtp_tx:
  assumes "normalizePhone (body_phone req) = ph" and "ph \<noteq> []"
    and "trim (case body_otp req of None \<Rightarrow> [] | Some s \<Rightarrow> s) = otp" and "otp \<noteq> []"
  shows "verifyOtp lib e d now req st =
     (case verifyOtpTx lib e d now ph (otpToHash lib ph otp) st of
        (Inl err, _) \<Rightarrow> (Next err, st)
      | (Inr otp_invalid, st') \<Rightarrow> (Json 401 (ErrorBody ''OTP_INVALID''), st')
      | (Inr otp_expired, st') \<Rightarrow> (Json 401 (ErrorBody ''OTP_EXPIRED''), st')
      | (Inr failed, st') \<Rightarrow> (Json 500 (ErrorBody ''LOGIN_FAILED''), st')
      | (Inr token_failed, st') \<Rightarrow> (Json 500 (ErrorBody ''TOKEN_CREATE_FAILED''), st')
      | (Inr (ok token customer), st') \<Rightarrow> (Json 200 (LoginBody token customer), st'))"
  using assms
  by (simp add: verifyOtp_def Let_def transaction_def
      split: prod.splits sum.splits tx_result.splits)

lemma find_filter_other:
  "find (\<lambda>r. otp_phone r = ph) (filter (\<lambda>r. otp_phone r \<noteq> ph) rows) = None"
  by (induction rows) auto

lemma find_SomeD: "find P xs = Some x \<Longrightarrow> P x"
  by (auto simp: find_Some_iff)

lemma verifyOtp_ok_tx:
  assumes "verifyOtp lib e d now req st = (Json 200 (LoginBody token customer), st')"
  shows "normalizePhone (body_phone req) \<noteq> []
       \<and> verifyOtpTx lib e d now (normalizePhone (body_phone req))
            (otpToHash lib (normalizePhone (body_phone req))
               (trim (case body_otp req of None \<Rightarrow> [] | Some s \<Rightarrow> s))) st
          = (Inr (ok token customer), st')"
proof -
  let ?ph = "normalizePhone (body_phone req)"
  let ?otp = "trim (case body_otp req of None \<Rightarrow> [] | Some s \<Rightarrow> s)"
  have nb: "?ph \<noteq> []" "?otp \<noteq> []"
    using assms verifyOtp_blank [of req lib e d now st] by auto
  show ?thesis
    using assms nb verifyOtp_tx [OF refl nb(1) refl nb(2), of lib e d now st]
    by (auto split: prod.splits sum.splits tx_result.splits)
qed

lemma verifyOtpTx_ok_live:
  assumes "verifyOtpTx lib e d now ph h tx = (Inr (ok token customer), tx')"
  shows "\<exists>r. find (\<lambda>r. otp_phone r = ph) (customerOtps tx) = Some r \<and> \<not> otp_used r
           \<and> (\<forall>ex. otp_expiresAt r = Some ex \<longrightarrow> now \<le> ex) \<and> otp_otpHash r = h"
proof (cases "find (\<lambda>r. otp_phone r = ph) (customerOtps tx)")
  case None
  with assms show ?thesis by (simp add: verifyOtpTx_absent)
next
  case (Some r)
  have 1: "\<not> otp_used r"
    using assms verifyOtpTx_used [OF Some, of lib e d now h] by auto
  have 2: "now \<le> ex" if "otp_expiresAt r = Some ex" for ex
    using assms verifyOtpTx_expired [OF Some 1 that, of now lib e d h] by (cases "ex < now") auto
  have 3: "otp_otpHash r = h"
    using assms verifyOtpTx_mismatch [OF Some 1, of h lib e d now] by auto
  from Some 1 2 3 show ?thesis by blast
qed

lemma find_append_new:
  "find P xs = None \<Longrightarrow> P x \<Longrightarrow> find P (xs @ [x]) = Some x"
  by (induction xs) (auto split: if_splits)

lemma verifyOtpTx_outcomes:
  assumes "verifyOtpTx lib e d now ph h tx = (res, tx')"
  shows "(res = Inr otp_invalid \<and> tx' = tx)
       \<or> (res = Inr otp_expired
            \<and> tx' = tx\<lparr>customerOtps := filter (\<lambda>r. otp_phone r \<noteq> ph) (customerOtps tx)\<rparr>)
       \<or> ((res = Inr token_failed \<or> isl res \<or> (\<exists>token customer. res = Inr (ok token customer)))
            \<and> (\<exists>r. find (\<lambda>r. otp_phone r = ph) (customerOtps tx) = Some r \<and> \<not> otp_used r
                  \<and> find (\<lambda>r. otp_phone r = ph) (customerOtps tx')
                      = Some (r\<lparr>otp_used := True\<rparr>)))"
proof (cases "find (\<lambda>r. otp_phone r = ph) (customerOtps tx)")
  case None
  with assms show ?thesis by (simp add: verifyOtpTx_absent)
next
  case (Some r)
  show ?thesis
  proof (cases "otp_used r")
    case True
    with assms Some show ?thesis by (simp add: verifyOtpTx_used)
  next
    case unused: False
    show ?thesis
    proof (cases "\<exists>ex. otp_expiresAt r = Some ex \<and> ex < now")
      case True
      then obtain ex where "otp_expiresAt r = Some ex" "ex < now" by blast
      with assms Some unused show ?thesis by (simp add: verifyOtpTx_expired)
    next
      case False
      then have unexpired: "\<forall>ex. otp_expiresAt r = Some ex \<longrightarrow> now \<le> ex" by auto
      show ?thesis
      proof (cases "otp_otpHash r = h")
        case mismatch: False
        with assms Some unused False show ?thesis
          using verifyOtpTx_mismatch [OF Some unused mismatch, of lib e d now] by auto
      next
        case True
        define customer0 where "customer0 =
           (case find (\<lambda>c. cust_phone c = ph) (customers tx) of
              Some c \<Rightarrow> c
            | None \<Rightarrow> \<lparr>cust_id = newCustomerId d,
                       cust_name = (if drop (length ph - 4) ph \<noteq> []
                                    then ''Customer '' @ drop (length ph - 4) ph
                                    else ''Customer''),
                       cust_phone = ph, cust_email = None,
                       cust_createdAt = newCreatedAt d\<rparr>)"
        define tx2 where "tx2 =
           tx\<lparr>customerOtps := snd (markUsed ph (customerOtps tx)),
              customers := (case find (\<lambda>c. cust_phone c = ph) (customers tx) of
                              Some c \<Rightarrow> customers tx | None \<Rightarrow> customers tx @ [customer0])\<rparr>"
        have otps: "customerOtps tx' = customerOtps tx2"
          and res: "res = Inr token_failed \<or> isl res \<or> (\<exists>token customer. res = Inr (ok token customer))"
          using verifyOtpTx_live [OF Some unused unexpired True customer0_def tx2_def, of lib e] assms
          by (auto split: sum.splits option.splits if_splits)
        have "find (\<lambda>r. otp_phone r = ph) (customerOtps tx') = Some (r\<lparr>otp_used := True\<rparr>)"
          using Some otps by (simp add: tx2_def find_markUsed)
        with Some unused res show ?thesis by blast
      qed
    qed
  qed
qed

text \<open>The definitions a handler unfolds to when it is evaluated on a concrete input.\<close>

lemmas eval_defs =
  verifyOtp_def sendOtp_def customerOtp_def selectWhitelist_def insertOtp_def pgText_def
  newDate_def plus_ms_def times_1000_def transaction_def verifyOtpTx_def markUsed_def insertCustomer_def
  insertSession_def upsertOtp_def normalizePhone_def trim_def isWhiteSpace_def otpToHash_def
  tokenToHash_def stub_platform_def requireJwtSecret_def JWT_TTL_def OTP_TTL_MS_def
  isPhoneWhitelistedRow_def keyed_env_def dev_env_def demo_draws_def form_def live_state_def
  empty_state_def Let_def

section \<open>Verifying a code\<close>

text \<open>
  C4. A \<^verbatim>\<open>verifyOtp\<close> call that submits a phone and a code (both non-blank once
  trimmed), where the phone's OTP record exists, is not used, and the current time is
  strictly greater than its expiry: the call answers 401 \<^verbatim>\<open>OTP_EXPIRED\<close> whatever the
  code is, and the state afterwards is the state before without the records of that
  phone. No OTP record is then left for the phone, and every further verification for it
  answers 401 \<^verbatim>\<open>OTP_INVALID\<close> and changes nothing.
\<close>

theorem verifyOtp_expired:
  assumes "normalizePhone (body_phone req) = ph" and "ph \<noteq> []"
    and "trim (case body_otp req of None \<Rightarrow> [] | Some s \<Rightarrow> s) \<noteq> []"
    and "find (\<lambda>r. otp_phone r = ph) (customerOtps st) = Some r"
    and "\<not> otp_used r"
    and "otp_expiresAt r = Some ex" and "ex < now"
    and "st' = st\<lparr>customerOtps := filter (\<lambda>r. otp_phone r \<noteq> ph) (customerOtps st)\<rparr>"
  shows "verifyOtp lib e d now req st = (Json 401 (ErrorBody ''OTP_EXPIRED''), st')
       \<and> find (\<lambda>r. otp_phone r = ph) (customerOtps st') = None
       \<and> (\<forall>lib' e' d' now' req'.
             normalizePhone (body_phone req') = ph \<and>
             trim (case body_otp req' of None \<Rightarrow> [] | Some s \<Rightarrow> s) \<noteq> []
             \<longrightarrow> verifyOtp lib' e' d' now' req' st'
                   = (Json 401 (ErrorBody ''OTP_INVALID''), st'))"
proof -
  have gone: "find (\<lambda>r. otp_phone r = ph) (customerOtps st') = None"
    using assms(8) by (simp add: find_filter_other)
  have first: "verifyOtp lib e d now req st = (Json 401 (ErrorBody ''OTP_EXPIRED''), st')"
    using verifyOtp_tx [OF assms(1,2) refl assms(3)]
      verifyOtpTx_expired [OF assms(4,5,6,7)] assms(8)
    by simp
  have later: "verifyOtp lib' e' d' now' req' st' = (Json 401 (ErrorBody ''OTP_INVALID''), st')"
    if "normalizePhone (body_phone req') = ph"
      and "trim (case body_otp req' of None \<Rightarrow> [] | Some s \<Rightarrow> s) \<noteq> []"
    for lib' e' d' now' req'
    using verifyOtp_tx [OF that(1) assms(2) refl that(2)] verifyOtpTx_absent [OF gone]
    by simp
  from first gone later show ?thesis by blast
qed

theorem verifyOtp_expired_witness:
  "verifyOtp (stub_platform (Some 1700000000)) keyed_env demo_draws 300001
       (form ''+919876543210'' ''000000'') live_state
     = (Json 401 (ErrorBody ''OTP_EXPIRED''), live_state\<lparr>customerOtps := []\<rparr>)
   \<and> verifyOtp (stub_platform (Some 1700000000)) keyed_env demo_draws 300002
       (form ''+919876543210'' ''482913'') (live_state\<lparr>customerOtps := []\<rparr>)
     = (Json 401 (ErrorBody ''OTP_INVALID''), live_state\<lparr>customerOtps := []\<rparr>)"
proof -
  let ?ph = "''+919876543210''"
  let ?r = "\<lparr>otp_phone = ?ph, otp_otpHash = ''#+919876543210:482913'',
             otp_expiresAt = Some 300000, otp_used = False\<rparr>"
  have 1: "normalizePhone (body_phone (form ?ph ''000000'')) = ?ph"
    and 2: "?ph \<noteq> []"
    and 3: "trim (case body_otp (form ?ph ''000000'') of None \<Rightarrow> [] | Some s \<Rightarrow> s) \<noteq> []"
    and 4: "find (\<lambda>r. otp_phone r = ?ph) (customerOtps live_state) = Some ?r"
    and 5: "\<not> otp_used ?r"
    and 6: "otp_expiresAt ?r = Some 300000"
    and 7: "(300000::int) < 300001"
    and 8: "live_state\<lparr>customerOtps := []\<rparr>
         = live_state\<lparr>customerOtps := filter (\<lambda>r. otp_phone r \<noteq> ?ph) (customerOtps live_state)\<rparr>"
    and 9: "normalizePhone (body_phone (form ?ph ''482913'')) = ?ph"
    and 10: "trim (case body_otp (form ?ph ''482913'') of None \<Rightarrow> [] | Some s \<Rightarrow> s) \<noteq> []"
    by (simp_all add: normalizePhone_def trim_def isWhiteSpace_def form_def live_state_def
        empty_state_def)
  from verifyOtp_expired [OF 1 2 3 4 5 6 7 8] 9 10 show ?thesis by blast
qed

text \<open>
  C1. A code is consumed at most once. The phone has a live record (unused, not expired,
  with the hash of the submitted code), the signing secret is accepted and
  \<^verbatim>\<open>jwt.sign\<close> yields a token that carries an expiry whose \<^verbatim>\<open>Date\<close> is valid and
  one the session table stores. Then the first \<^verbatim>\<open>verifyOtp\<close>
  succeeds (200 with the token and the customer), the record is marked used, the
  conditional update on \<open>used = false\<close> would find no row any more, and every later
  \<^verbatim>\<open>verifyOtp\<close> for that phone, with the same code or another, at any time, answers
  401 \<^verbatim>\<open>OTP_INVALID\<close> and leaves the state as it is.
\<close>

theorem verifyOtp_consumes_once:
  assumes ph: "normalizePhone (body_phone req) = ph" "ph \<noteq> []"
    and otp: "trim (case body_otp req of None \<Rightarrow> [] | Some s \<Rightarrow> s) = otp" "otp \<noteq> []"
    and row: "find (\<lambda>r. otp_phone r = ph) (customerOtps st) = Some r"
    and unused: "\<not> otp_used r"
    and unexpired: "\<forall>ex. otp_expiresAt r = Some ex \<longrightarrow> now \<le> ex"
    and matches: "otp_otpHash r = otpToHash lib ph otp"
    and secret: "requireJwtSecret e = Inr secret"
    and signs: "\<forall>p. jwt_phone p = ph \<and> jwt_typ p = ''customer'' \<longrightarrow>
                 (\<exists>token decoded exp.
                    jwtSign lib p secret (JWT_TTL e) now = Inr token \<and>
                    jwtDecode lib token = Some decoded \<and>
                    claim_exp decoded = Some exp \<and> exp \<noteq> 0 \<and>
                    (\<exists>t. newDate (times_1000 exp) = Some t \<and> storesTimestamp lib t))"
  shows "\<exists>token customer st1.
           verifyOtp lib e d now req st = (Json 200 (LoginBody token customer), st1)
         \<and> cust_phone customer = ph
         \<and> find (\<lambda>r. otp_phone r = ph) (customerOtps st1) = Some (r\<lparr>otp_used := True\<rparr>)
         \<and> fst (markUsed ph (customerOtps st1)) = []
         \<and> (\<forall>lib' e' d' now' req'.
               normalizePhone (body_phone req') = ph \<and>
               trim (case body_otp req' of None \<Rightarrow> [] | Some s \<Rightarrow> s) \<noteq> []
               \<longrightarrow> verifyOtp lib' e' d' now' req' st1
                     = (Json 401 (ErrorBody ''OTP_INVALID''), st1))"
proof -
  define customer where "customer =
     (case find (\<lambda>c. cust_phone c = ph) (customers st) of
        Some c \<Rightarrow> c
      | None \<Rightarrow> \<lparr>cust_id = newCustomerId d,
                 cust_name = (if drop (length ph - 4) ph \<noteq> []
                              then ''Customer '' @ drop (length ph - 4) ph
                              else ''Customer''),
                 cust_phone = ph, cust_email = None,
                 cust_createdAt = newCreatedAt d\<rparr>)"
  define tx2 where "tx2 =
     st\<lparr>customerOtps := snd (markUsed ph (customerOtps st)),
        customers := (case find (\<lambda>c. cust_phone c = ph) (customers st) of
                        Some c \<Rightarrow> customers st | None \<Rightarrow> customers st @ [customer])\<rparr>"
  have cph: "cust_phone customer = ph"
    by (auto simp: customer_def split: option.splits dest: find_SomeD)
  let ?p = "\<lparr>jwt_sub = cust_id customer, jwt_phone = cust_phone customer,
             jwt_jti = randomUUID d, jwt_typ = ''customer''\<rparr>"
  have "jwt_phone ?p = ph \<and> jwt_typ ?p = ''customer''"
    using cph by simp
  with signs obtain token decoded exp t where
    sign: "jwtSign lib ?p secret (JWT_TTL e) now = Inr token"
    and dec: "jwtDecode lib token = Some decoded" "claim_exp decoded = Some exp" "exp \<noteq> 0"
    and date: "newDate (times_1000 exp) = Some t" "storesTimestamp lib t"
    by blast
  obtain sessions where
    ins: "insertSession lib (cust_id customer) (tokenToHash lib token)
            (newDate (times_1000 exp)) (customerSessions tx2) = Inr sessions"
    using date by (simp add: insertSession_def)
  define st1 where "st1 = tx2\<lparr>customerSessions := sessions\<rparr>"
  have tx: "verifyOtpTx lib e d now ph (otpToHash lib ph otp) st = (Inr (ok token customer), st1)"
    using verifyOtpTx_live [OF row unused unexpired matches customer_def tx2_def, of lib e]
      secret sign dec ins
    by (simp add: st1_def)
  have first: "verifyOtp lib e d now req st = (Json 200 (LoginBody token customer), st1)"
    using verifyOtp_tx [OF ph otp, of lib e d now st] tx by simp
  have used: "find (\<lambda>r. otp_phone r = ph) (customerOtps st1) = Some (r\<lparr>otp_used := True\<rparr>)"
    using row by (simp add: st1_def tx2_def find_markUsed)
  have norows: "fst (markUsed ph (customerOtps st1)) = []"
    by (simp add: st1_def tx2_def markUsed_again)
  have later: "verifyOtp lib' e' d' now' req' st1 = (Json 401 (ErrorBody ''OTP_INVALID''), st1)"
    if "normalizePhone (body_phone req') = ph"
      and "trim (case body_otp req' of None \<Rightarrow> [] | Some s \<Rightarrow> s) \<noteq> []"
    for lib' e' d' now' req'
    using verifyOtp_tx [OF that(1) ph(2) refl that(2)] verifyOtpTx_used [OF used]
    by simp
  from first cph used norows later show ?thesis by blast
qed

theorem verifyOtp_consumes_once_witness:
  "fst (verifyOtp (stub_platform (Some 1700000000)) keyed_env demo_draws 1000
         (form ''+919876543210'' '' 482913 '') live_state)
     = Json 200 (LoginBody ''customer.u1.k3y''
         \<lparr>cust_id = 7, cust_name = ''Customer 3210'', cust_phone = ''+919876543210'',
          cust_email = None, cust_createdAt = 1000\<rparr>)
   \<and> verifyOtp (stub_platform (Some 1700000000)) keyed_env demo_draws 2000
         (form ''+919876543210'' ''482913'')
         (snd (verifyOtp (stub_platform (Some 1700000000)) keyed_env demo_draws 1000
                (form ''+919876543210'' '' 482913 '') live_state))
     = (Json 401 (ErrorBody ''OTP_INVALID''),
        snd (verifyOtp (stub_platform (Some 1700000000)) keyed_env demo_draws 1000
               (form ''+919876543210'' '' 482913 '') live_state))"
proof -
  let ?P = "stub_platform (Some 1700000000)"
  let ?ph = "''+919876543210''"
  let ?r = "\<lparr>otp_phone = ?ph, otp_otpHash = ''#+919876543210:482913'',
             otp_expiresAt = Some 300000, otp_used = False\<rparr>"
  have 1: "normalizePhone (body_phone (form ?ph '' 482913 '')) = ?ph"
    and 2: "?ph \<noteq> []"
    and 3: "trim (case body_otp (form ?ph '' 482913 '') of None \<Rightarrow> [] | Some s \<Rightarrow> s) = ''482913''"
    and 4: "''482913'' \<noteq> []"
    and 5: "find (\<lambda>r. otp_phone r = ?ph) (customerOtps live_state) = Some ?r"
    and 6: "\<not> otp_used ?r"
    and 7: "\<forall>ex. otp_expiresAt ?r = Some ex \<longrightarrow> 1000 \<le> ex"
    and 8: "otp_otpHash ?r = otpToHash ?P ?ph ''482913''"
    and 9: "requireJwtSecret keyed_env = Inr ''k3y''"
    and 10: "\<forall>p. jwt_phone p = ?ph \<and> jwt_typ p = ''customer'' \<longrightarrow>
                 (\<exists>token decoded exp.
                    jwtSign ?P p ''k3y'' (JWT_TTL keyed_env) 1000 = Inr token \<and>
                    jwtDecode ?P token = Some decoded \<and>
                    claim_exp decoded = Some exp \<and> exp \<noteq> 0 \<and>
                    (\<exists>t. newDate (times_1000 exp) = Some t \<and> storesTimestamp ?P t))"
    and 11: "normalizePhone (body_phone (form ?ph ''482913'')) = ?ph"
    and 12: "trim (case body_otp (form ?ph ''482913'') of None \<Rightarrow> [] | Some s \<Rightarrow> s) \<noteq> []"
    by (simp_all add: normalizePhone_def trim_def isWhiteSpace_def form_def live_state_def
        empty_state_def otpToHash_def stub_platform_def requireJwtSecret_def keyed_env_def
        dev_env_def newDate_def times_1000_def)
  from verifyOtp_consumes_once [OF 1 2 3 4 5 6 7 8 9 10, of demo_draws]
  obtain token customer st1 where
    first: "verifyOtp ?P keyed_env demo_draws 1000 (form ?ph '' 482913 '') live_state
              = (Json 200 (LoginBody token customer), st1)"
    and later: "\<forall>lib' e' d' now' req'.
               normalizePhone (body_phone req') = ?ph \<and>
               trim (case body_otp req' of None \<Rightarrow> [] | Some s \<Rightarrow> s) \<noteq> []
               \<longrightarrow> verifyOtp lib' e' d' now' req' st1
                     = (Json 401 (ErrorBody ''OTP_INVALID''), st1)"
    by blast
  have a: "fst (verifyOtp ?P keyed_env demo_draws 1000 (form ?ph '' 482913 '') live_state)
     = Json 200 (LoginBody ''customer.u1.k3y''
         \<lparr>cust_id = 7, cust_name = ''Customer 3210'', cust_phone = ''+919876543210'',
          cust_email = None, cust_createdAt = 1000\<rparr>)"
    by (simp add: eval_defs)
  have b: "verifyOtp ?P keyed_env demo_draws 2000 (form ?ph ''482913'') st1
             = (Json 401 (ErrorBody ''OTP_INVALID''), st1)"
    using later 11 12 by blast
  from a b first show ?thesis by simp
qed

text \<open>
  C6. A successful \<^verbatim>\<open>verifyOtp\<close> for a phone without a customer row adds exactly one
  row: the drawn id, the name \<^verbatim>\<open>"Customer "\<close> followed by the last four characters of the
  phone (\<^verbatim>\<open>phone.slice(-4)\<close>), the phone, no email; that row is the customer returned. For
  a phone with a customer row it adds none and returns the existing row, so its id. In
  both cases the returned customer is the one a later lookup by phone finds, so a later
  successful verification returns the same id.
\<close>

theorem verifyOtp_customer:
  assumes ok: "verifyOtp lib e d now req st = (Json 200 (LoginBody token customer), st')"
    and ph: "ph = normalizePhone (body_phone req)"
  shows "(find (\<lambda>c. cust_phone c = ph) (customers st) = None \<longrightarrow>
            customer = \<lparr>cust_id = newCustomerId d,
                         cust_name = ''Customer '' @ drop (length ph - 4) ph,
                         cust_phone = ph, cust_email = None,
                         cust_createdAt = newCreatedAt d\<rparr>
          \<and> customers st' = customers st @ [customer])
       \<and> (\<forall>c. find (\<lambda>c. cust_phone c = ph) (customers st) = Some c \<longrightarrow>
            customer = c \<and> customers st' = customers st)
       \<and> find (\<lambda>c. cust_phone c = ph) (customers st') = Some customer"
proof -
  let ?h = "otpToHash lib ph (trim (case body_otp req of None \<Rightarrow> [] | Some s \<Rightarrow> s))"
  from verifyOtp_ok_tx [OF ok] ph
  have nb: "ph \<noteq> []"
    and tx: "verifyOtpTx lib e d now ph ?h st = (Inr (ok token customer), st')"
    by simp_all
  from verifyOtpTx_ok_live [OF tx] obtain r where
    live: "find (\<lambda>r. otp_phone r = ph) (customerOtps st) = Some r" "\<not> otp_used r"
      "\<forall>ex. otp_expiresAt r = Some ex \<longrightarrow> now \<le> ex" "otp_otpHash r = ?h"
    by blast
  define customer0 where "customer0 =
     (case find (\<lambda>c. cust_phone c = ph) (customers st) of
        Some c \<Rightarrow> c
      | None \<Rightarrow> \<lparr>cust_id = newCustomerId d,
                 cust_name = (if drop (length ph - 4) ph \<noteq> []
                              then ''Customer '' @ drop (length ph - 4) ph
                              else ''Customer''),
                 cust_phone = ph, cust_email = None,
                 cust_createdAt = newCreatedAt d\<rparr>)"
  define tx2 where "tx2 =
     st\<lparr>customerOtps := snd (markUsed ph (customerOtps st)),
        customers := (case find (\<lambda>c. cust_phone c = ph) (customers st) of
                        Some c \<Rightarrow> customers st | None \<Rightarrow> customers st @ [customer0])\<rparr>"
  have res: "customer = customer0 \<and> customers st' = customers tx2"
    using verifyOtpTx_live [OF live customer0_def tx2_def, of lib e] tx
    by (auto split: sum.splits option.splits if_splits)
  have last4: "drop (length ph - 4) ph \<noteq> []"
    using nb by (cases ph) auto
  show ?thesis
  proof (cases "find (\<lambda>c. cust_phone c = ph) (customers st)")
    case None
    have c0: "customer0 = \<lparr>cust_id = newCustomerId d,
                         cust_name = ''Customer '' @ drop (length ph - 4) ph,
                         cust_phone = ph, cust_email = None,
                         cust_createdAt = newCreatedAt d\<rparr>"
      using None last4 by (simp add: customer0_def)
    have "cust_phone customer0 = ph" by (simp add: c0)
    then have "find (\<lambda>c. cust_phone c = ph) (customers st @ [customer0]) = Some customer0"
      using None by (simp add: find_append_new)
    with None res c0 show ?thesis by (simp add: tx2_def)
  next
    case (Some c)
    with res show ?thesis by (simp add: tx2_def customer0_def)
  qed
qed

theorem verifyOtp_customer_witness:
  "customers (snd (verifyOtp (stub_platform (Some 1700000000)) keyed_env demo_draws 1000
                     (form ''+919876543210'' ''482913'') live_state))
     = [\<lparr>cust_id = 7, cust_name = ''Customer 3210'', cust_phone = ''+919876543210'',
         cust_email = None, cust_createdAt = 1000\<rparr>]
   \<and> verifyOtp (stub_platform (Some 1700000000)) keyed_env demo_draws 1000
        (form ''+919876543210'' ''482913'') returning_state
     = (Json 200 (LoginBody ''customer.u1.k3y''
          \<lparr>cust_id = 3, cust_name = ''Asha'', cust_phone = ''+919876543210'',
           cust_email = Some ''asha@example.org'', cust_createdAt = 5\<rparr>),
        returning_state
          \<lparr>customerOtps := [\<lparr>otp_phone = ''+919876543210'',
                             otp_otpHash = ''#+919876543210:482913'',
                             otp_expiresAt = Some 300000, otp_used = True\<rparr>],
           customerSessions := [\<lparr>sess_customerId = 3, sess_tokenHash = ''#customer.u1.k3y'',
                                 sess_expiresAt = 1700000000000\<rparr>]\<rparr>)
   \<and> customers (returning_state
          \<lparr>customerOtps := [\<lparr>otp_phone = ''+919876543210'',
                             otp_otpHash = ''#+919876543210:482913'',
                             otp_expiresAt = Some 300000, otp_used = True\<rparr>],
           customerSessions := [\<lparr>sess_customerId = 3, sess_tokenHash = ''#customer.u1.k3y'',
                                 sess_expiresAt = 1700000000000\<rparr>]\<rparr>)
     = customers returning_state"
proof -
  let ?P = "stub_platform (Some 1700000000)"
  let ?ph = "''+919876543210''"
  let ?new = "\<lparr>cust_id = 7, cust_name = ''Customer 3210'', cust_phone = ?ph,
               cust_email = None, cust_createdAt = 1000\<rparr>"
  let ?old = "\<lparr>cust_id = 3, cust_name = ''Asha'', cust_phone = ?ph,
               cust_email = Some ''asha@example.org'', cust_createdAt = 5\<rparr>"
  obtain st1 where first:
    "verifyOtp ?P keyed_env demo_draws 1000 (form ?ph ''482913'') live_state
       = (Json 200 (LoginBody ''customer.u1.k3y'' ?new), st1)"
    by (simp add: eval_defs)
  have ph: "?ph = normalizePhone (body_phone (form ?ph ''482913''))"
    by (simp add: normalizePhone_def trim_def isWhiteSpace_def form_def)
  have none: "find (\<lambda>c. cust_phone c = ?ph) (customers live_state) = None"
    by (simp add: live_state_def empty_state_def)
  have a: "customers st1 = [?new]"
    using verifyOtp_customer [OF first ph] none
    by (simp add: live_state_def empty_state_def)
  have second:
    "verifyOtp ?P keyed_env demo_draws 1000 (form ?ph ''482913'') returning_state
     = (Json 200 (LoginBody ''customer.u1.k3y'' ?old),
        returning_state
          \<lparr>customerOtps := [\<lparr>otp_phone = ?ph, otp_otpHash = ''#+919876543210:482913'',
                             otp_expiresAt = Some 300000, otp_used = True\<rparr>],
           customerSessions := [\<lparr>sess_customerId = 3, sess_tokenHash = ''#customer.u1.k3y'',
                                 sess_expiresAt = 1700000000000\<rparr>]\<rparr>)"
    by (simp add: eval_defs returning_state_def)
  have some: "find (\<lambda>c. cust_phone c = ?ph) (customers returning_state) = Some ?old"
    by (simp add: returning_state_def)
  have b: "customers (returning_state
          \<lparr>customerOtps := [\<lparr>otp_phone = ?ph, otp_otpHash = ''#+919876543210:482913'',
                             otp_expiresAt = Some 300000, otp_used = True\<rparr>],
           customerSessions := [\<lparr>sess_customerId = 3, sess_tokenHash = ''#customer.u1.k3y'',
                                 sess_expiresAt = 1700000000000\<rparr>]\<rparr>)
     = customers returning_state"
    using verifyOtp_customer [OF second ph] some by blast
  from a b first second show ?thesis by simp
qed

text \<open>
  C2, as the code has it. The claim that no failure outcome leaves the record marked used
  does not hold for the outcomes reached after the conditional update: the callback
  returns them, so the transaction commits. Below, a code that matches is verified on a
  platform whose decoded token has no expiry: the answer is 500 \<^verbatim>\<open>TOKEN_CREATE_FAILED\<close>
  and the record, unused before, is used afterwards.
\<close>

theorem verifyOtp_marks_used_on_token_failure:
  "fst (verifyOtp (stub_platform None) keyed_env demo_draws 1000
          (form ''+919876543210'' ''482913'') live_state)
     = Json 500 (ErrorBody ''TOKEN_CREATE_FAILED'')
   \<and> map otp_used (customerOtps live_state) = [False]
   \<and> map otp_used (customerOtps (snd (verifyOtp (stub_platform None) keyed_env demo_draws 1000
          (form ''+919876543210'' ''482913'') live_state))) = [True]"
  by (simp add: eval_defs)

text \<open>
  C2, amended. When \<^verbatim>\<open>verifyOtp\<close> answers \<^verbatim>\<open>OTP_INVALID\<close> the state is unchanged; when
  it answers \<^verbatim>\<open>OTP_EXPIRED\<close> the state is the one before without the records of that
  phone; in neither case is a record marked used. When it answers
  \<^verbatim>\<open>TOKEN_CREATE_FAILED\<close>, the record of the phone was unused before and is marked used
  afterwards. \<^verbatim>\<open>LOGIN_FAILED\<close> is never answered, since the insert returns the row
  it added.
\<close>

theorem verifyOtp_failure_state:
  assumes call: "verifyOtp lib e d now req st = (resp, st')"
    and ph: "ph = normalizePhone (body_phone req)"
  shows "(resp = Json 401 (ErrorBody ''OTP_INVALID'') \<longrightarrow> st' = st)
       \<and> (resp = Json 401 (ErrorBody ''OTP_EXPIRED'') \<longrightarrow>
            st' = st\<lparr>customerOtps := filter (\<lambda>r. otp_phone r \<noteq> ph) (customerOtps st)\<rparr>)
       \<and> (resp = Json 500 (ErrorBody ''TOKEN_CREATE_FAILED'') \<longrightarrow>
            (\<exists>r. find (\<lambda>r. otp_phone r = ph) (customerOtps st) = Some r \<and> \<not> otp_used r
                \<and> find (\<lambda>r. otp_phone r = ph) (customerOtps st')
                    = Some (r\<lparr>otp_used := True\<rparr>)))
       \<and> resp \<noteq> Json 500 (ErrorBody ''LOGIN_FAILED'')"
proof (cases "ph = [] \<or> trim (case body_otp req of None \<Rightarrow> [] | Some s \<Rightarrow> s) = []")
  case True
  with call ph show ?thesis
    using verifyOtp_blank [of req lib e d now st] by auto
next
  case False
  let ?h = "otpToHash lib ph (trim (case body_otp req of None \<Rightarrow> [] | Some s \<Rightarrow> s))"
  obtain res tx' where tx: "verifyOtpTx lib e d now ph ?h st = (res, tx')"
    by (cases "verifyOtpTx lib e d now ph ?h st") auto
  have v: "(resp, st') =
     (case (res, tx') of
        (Inl err, _) \<Rightarrow> (Next err, st)
      | (Inr otp_invalid, st') \<Rightarrow> (Json 401 (ErrorBody ''OTP_INVALID''), st')
      | (Inr otp_expired, st') \<Rightarrow> (Json 401 (ErrorBody ''OTP_EXPIRED''), st')
      | (Inr failed, st') \<Rightarrow> (Json 500 (ErrorBody ''LOGIN_FAILED''), st')
      | (Inr token_failed, st') \<Rightarrow> (Json 500 (ErrorBody ''TOKEN_CREATE_FAILED''), st')
      | (Inr (ok token customer), st') \<Rightarrow> (Json 200 (LoginBody token customer), st'))"
    using verifyOtp_tx [OF ph [symmetric] _ refl, of lib e d now st] False call tx by simp
  from verifyOtpTx_outcomes [OF tx] v show ?thesis
    by (auto split: sum.splits tx_result.splits)
qed

theorem verifyOtp_failure_state_witness:
  "verifyOtp (stub_platform None) keyed_env demo_draws 1000
       (form ''+919876543210'' ''000000'') live_state
     = (Json 401 (ErrorBody ''OTP_INVALID''), live_state)
   \<and> find (\<lambda>r. otp_phone r = ''+919876543210'')
        (customerOtps (snd (verifyOtp (stub_platform None) keyed_env demo_draws 1000
           (form ''+919876543210'' ''482913'') live_state)))
     = Some \<lparr>otp_phone = ''+919876543210'', otp_otpHash = ''#+919876543210:482913'',
             otp_expiresAt = Some 300000, otp_used = True\<rparr>"
proof -
  let ?P = "stub_platform None"
  let ?ph = "''+919876543210''"
  obtain st1 where wrong:
    "verifyOtp ?P keyed_env demo_draws 1000 (form ?ph ''000000'') live_state
       = (Json 401 (ErrorBody ''OTP_INVALID''), st1)"
    by (simp add: eval_defs)
  obtain st2 where right:
    "verifyOtp ?P keyed_env demo_draws 1000 (form ?ph ''482913'') live_state
       = (Json 500 (ErrorBody ''TOKEN_CREATE_FAILED''), st2)"
    by (simp add: eval_defs)
  have ph: "?ph = normalizePhone (body_phone (form ?ph otp))" for otp
    by (simp add: normalizePhone_def trim_def isWhiteSpace_def form_def)
  have row: "find (\<lambda>r. otp_phone r = ?ph) (customerOtps live_state)
      = Some \<lparr>otp_phone = ?ph, otp_otpHash = ''#+919876543210:482913'',
              otp_expiresAt = Some 300000, otp_used = False\<rparr>"
    by (simp add: live_state_def empty_state_def)
  have a: "st1 = live_state"
    using verifyOtp_failure_state [OF wrong ph] by blast
  have b: "find (\<lambda>r. otp_phone r = ?ph) (customerOtps st2)
     = Some \<lparr>otp_phone = ?ph, otp_otpHash = ''#+919876543210:482913'',
             otp_expiresAt = Some 300000, otp_used = True\<rparr>"
    using verifyOtp_failure_state [OF right ph] row by auto
  from a b wrong right show ?thesis by simp
qed

section \<open>One OTP record for each phone\<close>

lemma upsertOtp_phones:
  "map otp_phone (upsertOtp ph h ex rows) =
     (if ph \<in> set (map otp_phone rows) then map otp_phone rows else map otp_phone rows @ [ph])"
proof -
  have "map otp_phone (map (\<lambda>r. if otp_phone r = ph
            then r\<lparr>otp_otpHash := h, otp_expiresAt := Some ex, otp_used := False\<rparr> else r) rows)
        = map otp_phone rows"
    by (induction rows) auto
  then show ?thesis
    by (auto simp: upsertOtp_def find_None_iff)
qed

lemma upsertOtp_distinct:
  "distinct (map otp_phone rows) \<Longrightarrow> distinct (map otp_phone (upsertOtp ph h ex rows))"
  unfolding upsertOtp_phones by auto

lemma upsertOtp_others:
  "filter (\<lambda>r. otp_phone r \<noteq> ph) (upsertOtp ph h ex rows) = filter (\<lambda>r. otp_phone r \<noteq> ph) rows"
proof -
  have "filter (\<lambda>r. otp_phone r \<noteq> ph) (map (\<lambda>r. if otp_phone r = ph
            then r\<lparr>otp_otpHash := h, otp_expiresAt := Some ex, otp_used := False\<rparr> else r) rows)
        = filter (\<lambda>r. otp_phone r \<noteq> ph) rows"
    by (induction rows) auto
  then show ?thesis by (simp add: upsertOtp_def)
qed

lemma upsertOtp_this:
  "distinct (map otp_phone rows) \<Longrightarrow>
   filter (\<lambda>r. otp_phone r = ph) (upsertOtp ph h ex rows)
     = [\<lparr>otp_phone = ph, otp_otpHash = h, otp_expiresAt = Some ex, otp_used = False\<rparr>]"
proof (induction rows)
  case Nil
  show ?case by (simp add: upsertOtp_def)
next
  case (Cons r rows)
  show ?case
  proof (cases "otp_phone r = ph")
    case True
    with Cons.prems have "ph \<notin> otp_phone ` set rows" by auto
    then have "filter (\<lambda>r. otp_phone r = ph)
        (map (\<lambda>r. if otp_phone r = ph
            then r\<lparr>otp_otpHash := h, otp_expiresAt := Some ex, otp_used := False\<rparr> else r) rows) = []"
      by (induction rows) auto
    with True show ?thesis by (simp add: upsertOtp_def)
  next
    case False
    with Cons show ?thesis by (auto simp: upsertOtp_def split: if_splits)
  qed
qed

lemma find_of_filter:
  "filter P xs = [x] \<Longrightarrow> find P xs = Some x"
  by (induction xs) (auto split: if_splits)

lemma filter_distinct_phones:
  "distinct (map otp_phone rows) \<Longrightarrow> distinct (map otp_phone (filter P rows))"
  by (induction rows) auto

lemma verifyOtpTx_otps:
  assumes "verifyOtpTx lib e d now ph h tx = (res, tx')"
  shows "customerOtps tx' = customerOtps tx
       \<or> customerOtps tx' = filter (\<lambda>r. otp_phone r \<noteq> ph) (customerOtps tx)
       \<or> customerOtps tx' = snd (markUsed ph (customerOtps tx))"
  using assms
  by (auto simp: verifyOtpTx_def Let_def insertCustomer_def split_beta
      split: option.splits if_splits sum.splits list.splits)

lemma handlers_keep_onePerPhone:
  assumes "onePerPhone st"
  shows "onePerPhone (snd (sendOtp lib e d now req st))"
    and "onePerPhone (snd (verifyOtp lib e d now req st))"
    and "onePerPhone (snd (logout lib e now req st))"
proof -
  show "onePerPhone (snd (sendOtp lib e d now req st))"
    using assms
    by (simp add: sendOtp_def selectWhitelist_def insertOtp_def customerOtp_def Let_def
        onePerPhone_def upsertOtp_distinct split: option.splits)
  show "onePerPhone (snd (logout lib e now req st))"
    using assms by (simp add: logout_def Let_def onePerPhone_def split: option.splits sum.splits)
  let ?ph = "normalizePhone (body_phone req)"
  let ?otp = "trim (case body_otp req of None \<Rightarrow> [] | Some s \<Rightarrow> s)"
  show "onePerPhone (snd (verifyOtp lib e d now req st))"
  proof (cases "?ph = [] \<or> ?otp = []")
    case True
    with assms show ?thesis by (simp add: verifyOtp_blank)
  next
    case False
    obtain res tx' where tx: "verifyOtpTx lib e d now ?ph (otpToHash lib ?ph ?otp) st = (res, tx')"
      by (cases "verifyOtpTx lib e d now ?ph (otpToHash lib ?ph ?otp) st") auto
    have "onePerPhone tx'"
      using verifyOtpTx_otps [OF tx] assms
      by (auto simp: onePerPhone_def map_phone_markUsed filter_distinct_phones)
    with assms tx False show ?thesis
      using verifyOtp_tx [OF refl _ refl, of req lib e d now st]
      by (auto split: sum.splits tx_result.splits)
  qed
qed

text \<open>
  C3, as the code has it. The claim that a code issued earlier never verifies after a new
  \<^verbatim>\<open>sendOtp\<close> does not hold when the new draw is the same code. Below, \<^verbatim>\<open>sendOtp\<close>
  draws \<^verbatim>\<open>482913\<close> twice for the same phone, and the code of the first call verifies.
\<close>

theorem sendOtp_same_code_still_verifies:
  "fst (verifyOtp (stub_platform (Some 1700000000)) keyed_env demo_draws 2000
          (form ''+919876543210'' ''482913'')
          (snd (sendOtp (stub_platform (Some 1700000000)) keyed_env demo_draws 1000
                  (form ''+919876543210'' [])
                  (snd (sendOtp (stub_platform (Some 1700000000)) keyed_env demo_draws 0
                          (form ''+919876543210'' []) listed_state)))))
     = Json 200 (LoginBody ''customer.u1.k3y''
         \<lparr>cust_id = 7, cust_name = ''Customer 3210'', cust_phone = ''+919876543210'',
          cust_email = None, cust_createdAt = 1000\<rparr>)"
  by (simp add: eval_defs listed_state_def)

text \<open>
  C3, amended. The OTP table has at most one row for each phone, and the phone is
  whitelisted. When the database takes the phone as a parameter and \<open>now + OTP_TTL_MS\<close>
  is a valid \<^verbatim>\<open>Date\<close> that the table stores, \<^verbatim>\<open>sendOtp\<close> answers \<^verbatim>\<open>{ok: true}\<close> and the
  table again has at most one row for each phone; the phone's only row has the hash of
  the phone and the new code, that expiry and \<open>used = false\<close>; the rows of other phones
  are as before. A code whose hash with the phone differs from the new one no longer
  verifies: \<^verbatim>\<open>OTP_INVALID\<close> until the new expiry, \<^verbatim>\<open>OTP_EXPIRED\<close> after it.
  \<^verbatim>\<open>verifyOtp\<close> and \<^verbatim>\<open>logout\<close> keep the table at one row for each phone. Otherwise the
  query or the insert throws: the error goes to \<^verbatim>\<open>next\<close> and the state is unchanged.
\<close>

theorem sendOtp_overwrites:
  assumes ph: "normalizePhone (body_phone req) = ph" "ph \<noteq> []"
    and wl: "ph \<in> set (phoneWhitelist st)"
    and inv: "onePerPhone st"
    and st': "st' = snd (sendOtp lib e d now req st)"
  shows "(\<forall>t. pgText ph \<and> newDate (plus_ms now (OTP_TTL_MS e)) = Some t \<and> storesTimestamp lib t
            \<longrightarrow>
              sendOtp lib e d now req st = (Json 200 OkBody, st')
            \<and> onePerPhone st'
            \<and> filter (\<lambda>r. otp_phone r = ph) (customerOtps st')
                = [\<lparr>otp_phone = ph, otp_otpHash = otpToHash lib ph (randomOtp d),
                    otp_expiresAt = Some t, otp_used = False\<rparr>]
            \<and> filter (\<lambda>r. otp_phone r \<noteq> ph) (customerOtps st')
                = filter (\<lambda>r. otp_phone r \<noteq> ph) (customerOtps st)
            \<and> (\<forall>e' d' now' req'.
                  normalizePhone (body_phone req') = ph \<and>
                  trim (case body_otp req' of None \<Rightarrow> [] | Some s \<Rightarrow> s) \<noteq> [] \<and>
                  otpToHash lib ph (trim (case body_otp req' of None \<Rightarrow> [] | Some s \<Rightarrow> s))
                    \<noteq> otpToHash lib ph (randomOtp d)
                  \<longrightarrow> verifyOtp lib e' d' now' req' st'
                        = (if t < now'
                           then (Json 401 (ErrorBody ''OTP_EXPIRED''),
                                 st'\<lparr>customerOtps :=
                                       filter (\<lambda>r. otp_phone r \<noteq> ph) (customerOtps st')\<rparr>)
                           else (Json 401 (ErrorBody ''OTP_INVALID''), st')))
            \<and> (\<forall>lib' e' d' now' req'.
                  onePerPhone (snd (verifyOtp lib' e' d' now' req' st')) \<and>
                  onePerPhone (snd (logout lib' e' now' req' st'))))
       \<and> (\<not> (pgText ph \<and>
               (\<exists>t. newDate (plus_ms now (OTP_TTL_MS e)) = Some t \<and> storesTimestamp lib t))
            \<longrightarrow> (\<exists>err. sendOtp lib e d now req st = (Next err, st)))"
proof -
  have wl_row: "filter (\<lambda>p. p = ph) wl \<noteq> [] \<and> hd (filter (\<lambda>p. p = ph) wl) = ph"
    if "ph \<in> set wl" for wl
    using that by (induction wl) auto
  have listed: "isPhoneWhitelistedRow
      (case take 1 (filter (\<lambda>p. p = ph) (phoneWhitelist st)) of [] \<Rightarrow> None | r # _ \<Rightarrow> Some r)"
    using ph wl_row [OF wl]
    by (cases "filter (\<lambda>p. p = ph) (phoneWhitelist st)")
       (simp_all add: isPhoneWhitelistedRow_def)
  have throws: "\<exists>err. sendOtp lib e d now req st = (Next err, st)"
    if "\<not> (pgText ph \<and>
             (\<exists>t. newDate (plus_ms now (OTP_TTL_MS e)) = Some t \<and> storesTimestamp lib t))"
    using that ph listed
    by (auto simp: sendOtp_def selectWhitelist_def insertOtp_def Let_def split: option.splits)
  have stores: "sendOtp lib e d now req st = (Json 200 OkBody, st')
            \<and> onePerPhone st'
            \<and> filter (\<lambda>r. otp_phone r = ph) (customerOtps st')
                = [\<lparr>otp_phone = ph, otp_otpHash = otpToHash lib ph (randomOtp d),
                    otp_expiresAt = Some t, otp_used = False\<rparr>]
            \<and> filter (\<lambda>r. otp_phone r \<noteq> ph) (customerOtps st')
                = filter (\<lambda>r. otp_phone r \<noteq> ph) (customerOtps st)
            \<and> (\<forall>e' d' now' req'.
                  normalizePhone (body_phone req') = ph \<and>
                  trim (case body_otp req' of None \<Rightarrow> [] | Some s \<Rightarrow> s) \<noteq> [] \<and>
                  otpToHash lib ph (trim (case body_otp req' of None \<Rightarrow> [] | Some s \<Rightarrow> s))
                    \<noteq> otpToHash lib ph (randomOtp d)
                  \<longrightarrow> verifyOtp lib e' d' now' req' st'
                        = (if t < now'
                           then (Json 401 (ErrorBody ''OTP_EXPIRED''),
                                 st'\<lparr>customerOtps :=
                                       filter (\<lambda>r. otp_phone r \<noteq> ph) (customerOtps st')\<rparr>)
                           else (Json 401 (ErrorBody ''OTP_INVALID''), st')))
            \<and> (\<forall>lib' e' d' now' req'.
                  onePerPhone (snd (verifyOtp lib' e' d' now' req' st')) \<and>
                  onePerPhone (snd (logout lib' e' now' req' st')))"
    if taken: "pgText ph" and date: "newDate (plus_ms now (OTP_TTL_MS e)) = Some t"
      and takes: "storesTimestamp lib t"
    for t
  proof -
    define fresh where "fresh = \<lparr>otp_phone = ph, otp_otpHash = otpToHash lib ph (randomOtp d),
                                 otp_expiresAt = Some t, otp_used = False\<rparr>"
    have call: "sendOtp lib e d now req st =
        (Json 200 OkBody,
         st\<lparr>customerOtps := upsertOtp ph (otpToHash lib ph (randomOtp d)) t (customerOtps st),
            outbox := outbox st @ [(ph, randomOtp d)]\<rparr>)"
      using ph listed taken date takes
      by (simp add: sendOtp_def selectWhitelist_def insertOtp_def customerOtp_def Let_def)
    have otps: "customerOtps st' = upsertOtp ph (otpToHash lib ph (randomOtp d)) t (customerOtps st)"
      using call st' by simp
    have 1: "sendOtp lib e d now req st = (Json 200 OkBody, st')"
      using call st' by simp
    have 2: "onePerPhone st'"
      using inv otps by (simp add: onePerPhone_def upsertOtp_distinct)
    have 3: "filter (\<lambda>r. otp_phone r = ph) (customerOtps st') = [fresh]"
      using inv otps by (simp add: onePerPhone_def upsertOtp_this fresh_def)
    have 4: "filter (\<lambda>r. otp_phone r \<noteq> ph) (customerOtps st')
             = filter (\<lambda>r. otp_phone r \<noteq> ph) (customerOtps st)"
      using otps by (simp add: upsertOtp_others)
    have row: "find (\<lambda>r. otp_phone r = ph) (customerOtps st') = Some fresh"
      using 3 by (rule find_of_filter)
    have 5: "verifyOtp lib e' d' now' req' st'
             = (if t < now'
                then (Json 401 (ErrorBody ''OTP_EXPIRED''),
                      st'\<lparr>customerOtps := filter (\<lambda>r. otp_phone r \<noteq> ph) (customerOtps st')\<rparr>)
                else (Json 401 (ErrorBody ''OTP_INVALID''), st'))"
      if a: "normalizePhone (body_phone req') = ph"
        and b: "trim (case body_otp req' of None \<Rightarrow> [] | Some s \<Rightarrow> s) \<noteq> []"
        and c: "otpToHash lib ph (trim (case body_otp req' of None \<Rightarrow> [] | Some s \<Rightarrow> s))
                 \<noteq> otpToHash lib ph (randomOtp d)"
      for e' d' now' req'
    proof -
      have unused: "\<not> otp_used fresh" and ex: "otp_expiresAt fresh = Some t"
        and hash: "otp_otpHash fresh
            \<noteq> otpToHash lib ph (trim (case body_otp req' of None \<Rightarrow> [] | Some s \<Rightarrow> s))"
        using c by (simp_all add: fresh_def)
      show ?thesis
      proof (cases "t < now'")
        case True
        then show ?thesis
          using verifyOtp_tx [OF a ph(2) refl b, of lib e' d' now' st']
            verifyOtpTx_expired [OF row unused ex True]
          by simp
      next
        case False
        then show ?thesis
          using verifyOtp_tx [OF a ph(2) refl b, of lib e' d' now' st']
            verifyOtpTx_mismatch [OF row unused hash, of lib e' d' now'] ex
          by auto
      qed
    qed
    have 6: "onePerPhone (snd (verifyOtp lib' e' d' now' req' st')) \<and>
             onePerPhone (snd (logout lib' e' now' req' st'))" for lib' e' d' now' req'
      using handlers_keep_onePerPhone(2,3) [OF 2] by blast
    from 1 2 3 4 5 6 show ?thesis unfolding fresh_def by blast
  qed
  from throws stores show ?thesis by blast
qed

theorem sendOtp_overwrites_witness:
  "sendOtp (stub_platform (Some 1700000000)) keyed_env (demo_draws\<lparr>randomOtp := ''730055''\<rparr>)
       1000 (form '' +919876543210'' []) live_state
     = (Json 200 OkBody,
        live_state\<lparr>customerOtps := [\<lparr>otp_phone = ''+919876543210'',
                                        otp_otpHash = ''#+919876543210:730055'',
                                        otp_expiresAt = Some 301000, otp_used = False\<rparr>],
                   outbox := [(''+919876543210'', ''730055'')]\<rparr>)
   \<and> verifyOtp (stub_platform (Some 1700000000)) keyed_env demo_draws 2000
        (form ''+919876543210'' ''482913'')
        (live_state\<lparr>customerOtps := [\<lparr>otp_phone = ''+919876543210'',
                                        otp_otpHash = ''#+919876543210:730055'',
                                        otp_expiresAt = Some 301000, otp_used = False\<rparr>],
                   outbox := [(''+919876543210'', ''730055'')]\<rparr>)
     = (Json 401 (ErrorBody ''OTP_INVALID''),
        live_state\<lparr>customerOtps := [\<lparr>otp_phone = ''+919876543210'',
                                        otp_otpHash = ''#+919876543210:730055'',
                                        otp_expiresAt = Some 301000, otp_used = False\<rparr>],
                   outbox := [(''+919876543210'', ''730055'')]\<rparr>)
   \<and> (\<exists>err. sendOtp (stub_platform (Some 1700000000))
               (keyed_env\<lparr>CUSTOMER_OTP_TTL_MS := Some NaN\<rparr>) demo_draws 1000
               (form ''+919876543210'' []) live_state
             = (Next err, live_state))"
proof -
  let ?P = "stub_platform (Some 1700000000)"
  let ?ph = "''+919876543210''"
  let ?d = "demo_draws\<lparr>randomOtp := ''730055''\<rparr>"
  let ?fresh = "\<lparr>otp_phone = ?ph, otp_otpHash = ''#+919876543210:730055'',
                 otp_expiresAt = Some 301000, otp_used = False\<rparr>"
  let ?st' = "live_state\<lparr>customerOtps := [?fresh], outbox := [(?ph, ''730055'')]\<rparr>"
  let ?nan = "keyed_env\<lparr>CUSTOMER_OTP_TTL_MS := Some NaN\<rparr>"
  have 1: "normalizePhone (body_phone (form '' +919876543210'' [])) = ?ph"
    and 2: "?ph \<noteq> []"
    and 3: "?ph \<in> set (phoneWhitelist live_state)"
    and 4: "onePerPhone live_state"
    and 6: "pgText ?ph" "newDate (plus_ms 1000 (OTP_TTL_MS keyed_env)) = Some 301000"
      "storesTimestamp ?P 301000"
    and 7: "normalizePhone (body_phone (form ?ph ''482913'')) = ?ph"
    and 8: "trim (case body_otp (form ?ph ''482913'') of None \<Rightarrow> [] | Some s \<Rightarrow> s) \<noteq> []"
    and 9: "otpToHash ?P ?ph (trim (case body_otp (form ?ph ''482913'') of None \<Rightarrow> []
                                      | Some s \<Rightarrow> s))
               \<noteq> otpToHash ?P ?ph (randomOtp ?d)"
    and 10: "\<not> ((301000::int) < 2000)"
    and 11: "normalizePhone (body_phone (form ?ph [])) = ?ph"
    and 12: "\<not> (pgText ?ph \<and>
               (\<exists>t. newDate (plus_ms 1000 (OTP_TTL_MS ?nan)) = Some t \<and> storesTimestamp ?P t))"
    by (simp_all add: normalizePhone_def trim_def isWhiteSpace_def form_def live_state_def
        empty_state_def onePerPhone_def otpToHash_def stub_platform_def demo_draws_def
        OTP_TTL_MS_def keyed_env_def dev_env_def pgText_def newDate_def plus_ms_def)
  have 5: "?st' = snd (sendOtp ?P keyed_env ?d 1000 (form '' +919876543210'' []) live_state)"
    by (simp add: eval_defs)
  from sendOtp_overwrites [OF 1 2 3 4 5] 6 7 8 9 10
  have a: "sendOtp ?P keyed_env ?d 1000 (form '' +919876543210'' []) live_state
          = (Json 200 OkBody, ?st')"
    and b: "verifyOtp ?P keyed_env demo_draws 2000 (form ?ph ''482913'') ?st'
          = (Json 401 (ErrorBody ''OTP_INVALID''), ?st')"
    by (blast, metis (no_types, lifting))
  from sendOtp_overwrites [where lib = ?P and e = ?nan and d = demo_draws and now = 1000,
      OF 11 2 3 4 refl] 12
  have c: "\<exists>err. sendOtp ?P ?nan demo_draws 1000 (form ?ph []) live_state = (Next err, live_state)"
    by blast
  from a b c show ?thesis by blast
qed

end
